theory Spec2Isabelle
  imports Complex_Main
begin

section \<open>Shared data: errors, transactions, the asset catalogue\<close>

text \<open>
  A JavaScript exception is a value with a \<open>name\<close> and a \<open>message\<close>; the handlers of
  both swap providers branch on \<open>e.name\<close>. Every function that can throw returns
  \<open>error + 'a\<close>, with \<open>Inl\<close> the thrown value.
\<close>

datatype error = Error (name: string) (message: string)

text \<open>
  \<open>Transaction\<close> of \<open>@liquality/types\<close>: the handlers read \<open>hash\<close> and the
  optional \<open>confirmations\<close> only.
\<close>

record Transaction =
  hash :: string
  confirmations :: "nat option"

text \<open>
  The catalogue \<open>cryptoassets\<close> (\<open>utils/cryptoassets\<close>) and the table \<open>chains\<close> of
  \<open>@liquality/cryptoassets\<close> are data of other packages: they are parameters of the
  model. An asset that is not in the catalogue makes \<open>cryptoassets[asset].chain\<close> throw
  a \<open>TypeError\<close>.
\<close>

record AssetInfo =
  chain :: string
  decimals :: nat
  erc20 :: bool
  contractAddress :: "string option"

type_synonym cryptoassets = "string \<rightharpoonup> AssetInfo"

definition TypeError :: error where
  "TypeError = Error ''TypeError'' ''Cannot read properties of undefined''"

section \<open>The asset lock (store/utils)\<close>

text \<open>
  \<open>CHAIN_LOCK\<close> is a module-level dictionary from keys to booleans and \<open>emitter\<close> a
  module-level event emitter: the state of the model holds the dictionary and the list of
  the events emitted so far, oldest first.
\<close>

record LockState =
  CHAIN_LOCK :: "string \<rightharpoonup> bool"
  emitted :: "string list"

record LockResult =
  key :: string
  success :: bool

text \<open>\<open>[network, walletId, chain].join('-')\<close>\<close>

definition lockKey :: "string \<Rightarrow> string \<Rightarrow> string \<Rightarrow> string" where
  "lockKey network walletId ch = network @ ''-'' @ walletId @ ''-'' @ ch"

text \<open>\<open>CHAIN_LOCK[key]\<close> read as a condition: an absent key and \<open>false\<close> are both falsy.\<close>

definition isLocked :: "LockState \<Rightarrow> string \<Rightarrow> bool" where
  "isLocked st k = (CHAIN_LOCK st k = Some True)"

definition attemptToLockAsset ::
  "cryptoassets \<Rightarrow> string \<Rightarrow> string \<Rightarrow> string \<Rightarrow> LockState \<Rightarrow> (error + LockResult) \<times> LockState"
where
  "attemptToLockAsset ca network walletId asset st =
     (case ca asset of
        None \<Rightarrow> (Inl TypeError, st)
      | Some info \<Rightarrow>
          (let k = lockKey network walletId (chain info) in
           if isLocked st k
           then (Inr \<lparr>key = k, success = False\<rparr>, st)
           else (Inr \<lparr>key = k, success = True\<rparr>,
                 st\<lparr>CHAIN_LOCK := (CHAIN_LOCK st)(k \<mapsto> True)\<rparr>)))"

definition unlockAsset :: "string \<Rightarrow> LockState \<Rightarrow> LockState" where
  "unlockAsset k st =
     st\<lparr>CHAIN_LOCK := (CHAIN_LOCK st)(k \<mapsto> False), emitted := emitted st @ [''unlock:'' @ k]\<rparr>"

section \<open>Calls to collaborators: traces and time-indexed answers\<close>

text \<open>
  The providers are \<open>async\<close> methods that call chain clients, the agent and the
  THORNode over the network. A computation takes the list of the calls made so far (the
  trace, oldest first) and returns its result, or the thrown error, with the extended
  trace. What a collaborator answers is a parameter of the model (record \<open>World\<close>
  below); every answer may depend on the number of calls made before it, so the same
  question asked twice can be answered differently.
\<close>

record Client =
  c_network :: string
  c_walletId :: string
  c_asset :: string
  c_accountId :: string

text \<open>The parameter object of the HTLC methods of \<open>client.swap\<close>.\<close>

record SwapParams =
  p_value :: rat
  p_recipientAddress :: string
  p_refundAddress :: string
  p_secretHash :: string
  p_expiration :: int

text \<open>
  The \<open>data\<close> of a transaction request: the hex of a memo, the encoded ERC20
  \<open>approve\<close> call, or the router's \<open>deposit\<close> call (vault, token, amount, memo). The
  byte encodings are the libraries'.
\<close>

record ThorAsset =
  a_chain :: string
  a_symbol :: string

text \<open>
  The arguments of \<open>getSwapMemo\<close> of \<open>@thorchain/asgardex-util\<close>, which writes them
  into the memo text: the destination asset, the destination address and the limit (the
  amount of a \<open>BaseAmount\<close> of 8 decimals).
\<close>

record SwapMemo =
  m_asset :: ThorAsset
  m_address :: string
  m_limit :: int

datatype TxData =
    MemoHex SwapMemo
  | ApproveData string
  | DepositData string string rat SwapMemo

record TxRequest =
  t_to :: string
  t_value :: rat
  t_data :: TxData
  t_fee :: rat

datatype event =
    HttpPostOrder string string rat
  | HttpPostOrderUpdate string
  | DateNow
  | GetSwapAddress string string string string
  | GenerateSecret Client
  | InitiateSwap Client SwapParams rat
  | FundSwap Client SwapParams string rat
  | ClaimSwap Client SwapParams string string rat
  | RefundSwap Client SwapParams string rat
  | FindInitiateSwapTransaction Client SwapParams
  | VerifyInitiateSwapTransaction Client SwapParams string
  | FindFundSwapTransaction Client SwapParams string
  | GetTransactionByHash Client string
  | GetBlockHeight Client
  | GetBlockByNumber Client nat
  | SendTransaction Client TxRequest
  | ConsoleWarn error
  | Wait nat
  | IntervalElapsed
  | UpdateBalances string string "string list"
  | SendLedgerNotification string string
  | ThornodeGetTx string
  | ThornodeInboundAddresses
  | Erc20Allowance string string
  | Uuidv4

type_synonym 'a io = "event list \<Rightarrow> (error + 'a) \<times> event list"

definition returnM :: "'a \<Rightarrow> 'a io" where
  "returnM x = (\<lambda>tr. (Inr x, tr))"

definition throwM :: "error \<Rightarrow> 'a io" where
  "throwM e = (\<lambda>tr. (Inl e, tr))"

definition bindM :: "'a io \<Rightarrow> ('a \<Rightarrow> 'b io) \<Rightarrow> 'b io" where
  "bindM m f = (\<lambda>tr. case m tr of (Inl e, tr') \<Rightarrow> (Inl e, tr') | (Inr x, tr') \<Rightarrow> f x tr')"

text \<open>\<open>try { m } catch (e) { h e }\<close>\<close>

definition catchM :: "'a io \<Rightarrow> (error \<Rightarrow> 'a io) \<Rightarrow> 'a io" where
  "catchM m h = (\<lambda>tr. case m tr of (Inl e, tr') \<Rightarrow> h e tr' | (Inr x, tr') \<Rightarrow> (Inr x, tr'))"

text \<open>An awaited call: it is appended to the trace and answered for this moment.\<close>

definition call :: "event \<Rightarrow> (nat \<Rightarrow> error + 'a) \<Rightarrow> 'a io" where
  "call ev answer = (\<lambda>tr. (answer (length tr), tr @ [ev]))"

text \<open>A call whose result is not used and that cannot throw into the caller.\<close>

definition emit :: "event \<Rightarrow> unit io" where
  "emit ev = (\<lambda>tr. (Inr (), tr @ [ev]))"

text \<open>A synchronous lookup that may throw.\<close>

definition liftE :: "error + 'a \<Rightarrow> 'a io" where
  "liftE r = (\<lambda>tr. (r, tr))"

text \<open>
  A value of a returned object literal, and the object itself: a partial update maps
  field names to values; \<open>undefined\<close> (no result for this tick) is \<open>None\<close>.
\<close>

datatype jsval = Str string | Num rat | TxVal Transaction

type_synonym update = "string \<rightharpoonup> jsval"

record Block =
  timestamp :: int

record ChainInfo =
  safeConfirmations :: nat
  nativeAsset :: string

text \<open>
  What an HTTP request of \<open>axios\<close> throws: the error, and \<open>e.response.data.error\<close>
  when the server sent one.
\<close>

record HttpFailure =
  cause :: error
  responseError :: "string option"

text \<open>
  The order the agent answers to \<open>POST /api/swap/order\<close>: the fields of the swap that
  the agent fixes (the wallet spreads the whole answer over the quote).
\<close>

record AgentOrder =
  o_orderId :: string
  o_fromAmount :: rat
  o_toAmount :: rat
  o_expiresAt :: int
  o_swapExpiration :: int
  o_nodeSwapExpiration :: int
  o_fromCounterPartyAddress :: string
  o_toCounterPartyAddress :: string

text \<open>What the THORNode reports of a transaction: \<open>observed_tx.out_hashes\<close> and \<open>observed_tx.tx.memo\<close>.\<close>

record ThorchainTransactionResponse =
  out_hashes :: "string list"
  memo :: "string option"

record ThorchainInboundAddress =
  i_chain :: string
  i_address :: string
  i_router :: "string option"

record World =
  cryptoassets :: cryptoassets
  chains :: "string \<rightharpoonup> ChainInfo"
  dateNow :: "nat \<Rightarrow> int"
  agentOrder :: "nat \<Rightarrow> string \<Rightarrow> string \<Rightarrow> rat \<Rightarrow> HttpFailure + AgentOrder"
  agentOrderUpdate :: "nat \<Rightarrow> string \<Rightarrow> error + unit"
  swapAddress :: "nat \<Rightarrow> string \<Rightarrow> string \<Rightarrow> string \<Rightarrow> string \<Rightarrow> error + string"
  swapGenerateSecret :: "nat \<Rightarrow> Client \<Rightarrow> error + string"
  sha256 :: "string \<Rightarrow> string"
  swapInitiateSwap :: "nat \<Rightarrow> Client \<Rightarrow> SwapParams \<Rightarrow> rat \<Rightarrow> error + Transaction"
  swapFundSwap :: "nat \<Rightarrow> Client \<Rightarrow> SwapParams \<Rightarrow> string \<Rightarrow> rat \<Rightarrow> error + Transaction option"
  swapClaimSwap :: "nat \<Rightarrow> Client \<Rightarrow> SwapParams \<Rightarrow> string \<Rightarrow> string \<Rightarrow> rat \<Rightarrow> error + Transaction"
  swapRefundSwap :: "nat \<Rightarrow> Client \<Rightarrow> SwapParams \<Rightarrow> string \<Rightarrow> rat \<Rightarrow> error + Transaction"
  swapFindInitiate :: "nat \<Rightarrow> Client \<Rightarrow> SwapParams \<Rightarrow> error + Transaction option"
  swapVerifyInitiate :: "nat \<Rightarrow> Client \<Rightarrow> SwapParams \<Rightarrow> string \<Rightarrow> error + bool"
  swapFindFund :: "nat \<Rightarrow> Client \<Rightarrow> SwapParams \<Rightarrow> string \<Rightarrow> error + Transaction option"
  chainGetTransactionByHash :: "nat \<Rightarrow> Client \<Rightarrow> string \<Rightarrow> error + Transaction option"
  chainGetBlockHeight :: "nat \<Rightarrow> Client \<Rightarrow> error + nat"
  chainGetBlockByNumber :: "nat \<Rightarrow> Client \<Rightarrow> nat \<Rightarrow> error + Block"
  chainSendTransaction :: "nat \<Rightarrow> Client \<Rightarrow> TxRequest \<Rightarrow> error + Transaction"
  ledgerNotification :: "nat \<Rightarrow> string \<Rightarrow> error + unit"
  thornodeTx :: "nat \<Rightarrow> string \<Rightarrow> ThorchainTransactionResponse option"
  thornodeInbound :: "nat \<Rightarrow> error + ThorchainInboundAddress list"
  erc20Allowance :: "nat \<Rightarrow> string \<Rightarrow> string \<Rightarrow> error + string \<Rightarrow> error + rat"
  uuid :: "nat \<Rightarrow> string"
  formatAddress :: "string \<Rightarrow> string \<Rightarrow> string \<Rightarrow> string"
  assetFromString :: "string \<Rightarrow> ThorAsset option"
  toUpperCase :: "string \<Rightarrow> string"
  encodeApprove :: "error + string \<Rightarrow> rat \<Rightarrow> error + string"

text \<open>\<open>getClient(network, walletId, asset, accountId)\<close> of the provider base class.\<close>

definition getClient :: "string \<Rightarrow> string \<Rightarrow> string \<Rightarrow> string \<Rightarrow> Client" where
  "getClient network walletId asset accountId =
     \<lparr>c_network = network, c_walletId = walletId, c_asset = asset, c_accountId = accountId\<rparr>"

definition getSwapAddress :: "World \<Rightarrow> string \<Rightarrow> string \<Rightarrow> string \<Rightarrow> string \<Rightarrow> string io" where
  "getSwapAddress w network walletId asset accountId =
     call (GetSwapAddress network walletId asset accountId)
          (\<lambda>t. swapAddress w t network walletId asset accountId)"

definition sendLedgerNotification :: "World \<Rightarrow> string \<Rightarrow> string \<Rightarrow> unit io" where
  "sendLedgerNotification w accountId msg =
     call (SendLedgerNotification accountId msg) (\<lambda>t. ledgerNotification w t accountId)"

definition getTransactionByHash :: "World \<Rightarrow> Client \<Rightarrow> string \<Rightarrow> Transaction option io" where
  "getTransactionByHash w c h = call (GetTransactionByHash c h) (\<lambda>t. chainGetTransactionByHash w t c h)"

text \<open>\<open>timestamp()\<close> of store/utils: \<open>Date.now()\<close>.\<close>

definition timestampNow :: "World \<Rightarrow> int io" where
  "timestampNow w = call DateNow (\<lambda>t. Inr (dateNow w t))"

text \<open>
  Modelled from the spec: \<open>isERC20\<close> of \<open>utils/asset\<close> is not among the sources; it reads
  the asset's type in the catalogue.
\<close>

definition isERC20 :: "World \<Rightarrow> string \<Rightarrow> bool" where
  "isERC20 w asset = (case cryptoassets w asset of None \<Rightarrow> False | Some a \<Rightarrow> erc20 a)"

text \<open>\<open>chains[cryptoassets[asset].chain].safeConfirmations\<close>\<close>

definition safeConfirmationsOf :: "World \<Rightarrow> string \<Rightarrow> error + nat" where
  "safeConfirmationsOf w asset =
     (case cryptoassets w asset of
        None \<Rightarrow> Inl TypeError
      | Some a \<Rightarrow> (case chains w (chain a) of
                     None \<Rightarrow> Inl TypeError
                   | Some c \<Rightarrow> Inr (safeConfirmations c)))"

text \<open>\<open>tx && tx.confirmations && tx.confirmations > 0\<close>\<close>

definition hasConfirmations :: "Transaction option \<Rightarrow> bool" where
  "hasConfirmations tx =
     (case tx of None \<Rightarrow> False
      | Some t \<Rightarrow> (case confirmations t of None \<Rightarrow> False | Some n \<Rightarrow> n \<noteq> 0 \<and> n > 0))"

section \<open>The HTLC provider (LiqualitySwapProvider)\<close>

text \<open>
  The swap record. Amounts are decimal strings read through \<open>new BN(...)\<close>: the model
  holds their values. \<open>from\<close>, \<open>to\<close> and \<open>id\<close> are \<open>fromAsset\<close>, \<open>toAsset\<close> and
  \<open>swapId\<close> here. \<open>fromFundHash\<close> and \<open>fromFundTx\<close>, which both providers declare,
  stand in the common part; \<open>refundTx\<close> and \<open>toClaimTx\<close> are only ever written, through
  updates.
\<close>

record SwapHistoryItem =
  swapId :: string
  fromAsset :: string
  toAsset :: string
  fromAmount :: rat
  toAmount :: rat
  fromAccountId :: string
  toAccountId :: string
  fee :: rat
  claimFee :: rat
  status :: string
  fromFundHash :: string
  fromFundTx :: "Transaction option"

record LiqualitySwapHistoryItem = SwapHistoryItem +
  orderId :: string
  fromAddress :: string
  toAddress :: string
  fromCounterPartyAddress :: string
  toCounterPartyAddress :: string
  secretHash :: string
  secret :: string
  expiresAt :: int
  swapExpiration :: int
  nodeSwapExpiration :: int
  refundHash :: string
  toClaimHash :: string
  toFundHash :: string

text \<open>The two parameter objects the handlers build again and again.\<close>

definition fromSwapParams :: "LiqualitySwapHistoryItem \<Rightarrow> SwapParams" where
  "fromSwapParams swap =
     \<lparr>p_value = fromAmount swap, p_recipientAddress = fromCounterPartyAddress swap,
      p_refundAddress = fromAddress swap, p_secretHash = secretHash swap,
      p_expiration = swapExpiration swap\<rparr>"

definition toSwapParams :: "LiqualitySwapHistoryItem \<Rightarrow> SwapParams" where
  "toSwapParams swap =
     \<lparr>p_value = toAmount swap, p_recipientAddress = toAddress swap,
      p_refundAddress = toCounterPartyAddress swap, p_secretHash = secretHash swap,
      p_expiration = nodeSwapExpiration swap\<rparr>"

text \<open>
  \<open>_getQuote\<close>: the request to the agent; a failure that carries a (truthy) server error
  is thrown as a new \<open>Error\<close> with that message, any other failure as it is.
\<close>

definition Liquality_private_getQuote :: "World \<Rightarrow> string \<Rightarrow> string \<Rightarrow> rat \<Rightarrow> AgentOrder io" where
  "Liquality_private_getQuote w from to amount =
     call (HttpPostOrder from to amount)
       (\<lambda>t. case agentOrder w t from to amount of
               Inr order \<Rightarrow> Inr order
             | Inl f \<Rightarrow> (case responseError f of
                           Some msg \<Rightarrow> if msg \<noteq> [] then Inl (Error ''Error'' msg) else Inl (cause f)
                         | None \<Rightarrow> Inl (cause f)))"

text \<open>\<open>{ ..._quote, ...lockedQuote }\<close>\<close>

definition mergeQuote :: "LiqualitySwapHistoryItem \<Rightarrow> AgentOrder \<Rightarrow> LiqualitySwapHistoryItem" where
  "mergeQuote q order =
     q\<lparr>orderId := o_orderId order, fromAmount := o_fromAmount order, toAmount := o_toAmount order,
       expiresAt := o_expiresAt order, swapExpiration := o_swapExpiration order,
       nodeSwapExpiration := o_nodeSwapExpiration order,
       fromCounterPartyAddress := o_fromCounterPartyAddress order,
       toCounterPartyAddress := o_toCounterPartyAddress order\<rparr>"

definition hasQuoteExpired :: "World \<Rightarrow> LiqualitySwapHistoryItem \<Rightarrow> bool io" where
  "hasQuoteExpired w swap = bindM (timestampNow w) (\<lambda>now. returnM (now \<ge> expiresAt swap))"

text \<open>
  \<open>newSwap\<close>. \<open>new BN(x).times(0.995)\<close> is the exact product with the decimal 0.995.
  The secret is generated from a message that the quote determines.
\<close>

definition Liquality_newSwap ::
  "World \<Rightarrow> string \<Rightarrow> string \<Rightarrow> LiqualitySwapHistoryItem \<Rightarrow> LiqualitySwapHistoryItem io"
where
  "Liquality_newSwap w network walletId quote0 =
     bindM (Liquality_private_getQuote w (fromAsset quote0) (toAsset quote0) (fromAmount quote0)) (\<lambda>lockedQuote.
       if o_toAmount lockedQuote < toAmount quote0 * (995 / 1000)
       then throwM (Error ''Error'' ''The quote slippage is too high (> 0.5%). Try again.'')
       else
         (let quote1 = mergeQuote quote0 lockedQuote in
          bindM (hasQuoteExpired w quote1) (\<lambda>expired.
            if expired then throwM (Error ''Error'' ''The quote is expired.'')
            else
              bindM (getSwapAddress w network walletId (fromAsset quote1) (fromAccountId quote1)) (\<lambda>fa.
              bindM (getSwapAddress w network walletId (toAsset quote1) (toAccountId quote1)) (\<lambda>ta.
                (let quote = quote1\<lparr>fromAddress := fa, toAddress := ta\<rparr>;
                     fromClient = getClient network walletId (fromAsset quote) (fromAccountId quote)
                 in
                 bindM (call (GenerateSecret fromClient) (\<lambda>t. swapGenerateSecret w t fromClient)) (\<lambda>sec.
                   (let sh = sha256 w sec;
                        params = \<lparr>p_value = fromAmount quote,
                                  p_recipientAddress = fromCounterPartyAddress quote,
                                  p_refundAddress = fromAddress quote,
                                  p_secretHash = sh,
                                  p_expiration = swapExpiration quote\<rparr>
                    in
                    bindM (call (InitiateSwap fromClient params (fee quote))
                             (\<lambda>t. swapInitiateSwap w t fromClient params (fee quote))) (\<lambda>tx.
                      returnM (quote\<lparr>status := ''INITIATED'', secret := sec, secretHash := sh,
                                     fromFundHash := hash tx, fromFundTx := Some tx\<rparr>))))))))))"

text \<open>\<open>updateOrder\<close>: the report to the agent.\<close>

definition updateOrder :: "World \<Rightarrow> LiqualitySwapHistoryItem \<Rightarrow> unit io" where
  "updateOrder w order = call (HttpPostOrderUpdate (orderId order)) (\<lambda>t. agentOrderUpdate w t (orderId order))"

text \<open>
  The try block of \<open>hasChainTimePassed\<close>: the height, then the block at that height.
\<close>

definition chainRead :: "World \<Rightarrow> Client \<Rightarrow> Block io" where
  "chainRead w client =
     bindM (call (GetBlockHeight client) (\<lambda>t. chainGetBlockHeight w t client)) (\<lambda>blockNumber.
       call (GetBlockByNumber client blockNumber) (\<lambda>t. chainGetBlockByNumber w t client blockNumber))"

text \<open>
  The loop of \<open>hasChainTimePassed\<close>, with the counter \<open>tries\<close> as the source has it. The
  exit of the \<open>while\<close> without a \<open>return\<close> gives \<open>undefined\<close>, which is \<open>None\<close>.
\<close>

function hasChainTimePassed_loop ::
  "World \<Rightarrow> Client \<Rightarrow> int \<Rightarrow> nat \<Rightarrow> nat \<Rightarrow> bool option io"
where
  "hasChainTimePassed_loop w client ts maxTries tries tr =
     (if tries < maxTries then
        (case chainRead w client tr of
           (Inr latestBlock, tr1) \<Rightarrow> (Inr (Some (timestamp latestBlock > ts)), tr1)
         | (Inl e, tr1) \<Rightarrow>
             (if tries + 1 \<ge> maxTries then (Inl e, tr1)
              else hasChainTimePassed_loop w client ts maxTries (tries + 1)
                     (tr1 @ [ConsoleWarn e, Wait 2000])))
      else (Inr None, tr))"
  by pat_completeness auto
termination
  by (relation "measure (\<lambda>(w, client, ts, maxTries, tries, tr). maxTries - tries)") auto

definition hasChainTimePassed ::
  "World \<Rightarrow> string \<Rightarrow> string \<Rightarrow> string \<Rightarrow> int \<Rightarrow> string \<Rightarrow> bool option io"
where
  "hasChainTimePassed w network walletId asset ts accountId =
     hasChainTimePassed_loop w (getClient network walletId asset accountId) ts 3 0"

definition canRefund :: "World \<Rightarrow> string \<Rightarrow> string \<Rightarrow> LiqualitySwapHistoryItem \<Rightarrow> bool option io" where
  "canRefund w network walletId swap =
     hasChainTimePassed w network walletId (fromAsset swap) (swapExpiration swap) (fromAccountId swap)"

definition hasSwapExpired :: "World \<Rightarrow> string \<Rightarrow> string \<Rightarrow> LiqualitySwapHistoryItem \<Rightarrow> bool option io" where
  "hasSwapExpired w network walletId swap =
     hasChainTimePassed w network walletId (toAsset swap) (nodeSwapExpiration swap) (toAccountId swap)"

definition handleExpirations ::
  "World \<Rightarrow> string \<Rightarrow> string \<Rightarrow> LiqualitySwapHistoryItem \<Rightarrow> update option io"
where
  "handleExpirations w network walletId swap =
     bindM (canRefund w network walletId swap) (\<lambda>r.
       if r = Some True then returnM (Some [''status'' \<mapsto> Str ''GET_REFUND''])
       else
         bindM (hasSwapExpired w network walletId swap) (\<lambda>x.
           if x = Some True then returnM (Some [''status'' \<mapsto> Str ''WAITING_FOR_REFUND''])
           else returnM None))"

subsection \<open>The handlers of the HTLC provider\<close>

text \<open>
  A handler returns a partial update or \<open>undefined\<close> (\<open>None\<close>). Where the source leaves a
  \<open>try\<close> block through \<open>return\<close>, the block's value here is \<open>Some\<close> of the returned
  object, and the code after the \<open>try\<close> statement runs only on \<open>None\<close>.
\<close>

definition waitForClaimConfirmations ::
  "World \<Rightarrow> string \<Rightarrow> string \<Rightarrow> LiqualitySwapHistoryItem \<Rightarrow> update option io"
where
  "waitForClaimConfirmations w network walletId swap =
     (let toClient = getClient network walletId (toAsset swap) (toAccountId swap) in
      bindM
        (catchM
           (bindM (getTransactionByHash w toClient (toClaimHash swap)) (\<lambda>tx.
              if hasConfirmations tx then
                bindM (emit (UpdateBalances network walletId [toAsset swap, fromAsset swap])) (\<lambda>_.
                bindM (timestampNow w) (\<lambda>now.
                  returnM (Some [''endTime'' \<mapsto> Num (of_int now), ''status'' \<mapsto> Str ''SUCCESS''])))
              else returnM None))
           (\<lambda>e. if name e = ''TxNotFoundError''
                 then bindM (emit (ConsoleWarn e)) (\<lambda>_. returnM None)
                 else throwM e))
        (\<lambda>returned.
           case returned of
             Some u \<Rightarrow> returnM (Some u)
           | None \<Rightarrow> handleExpirations w network walletId swap))"

definition waitForRefund ::
  "World \<Rightarrow> string \<Rightarrow> string \<Rightarrow> LiqualitySwapHistoryItem \<Rightarrow> update option io"
where
  "waitForRefund w network walletId swap =
     bindM (canRefund w network walletId swap) (\<lambda>r.
       if r = Some True then returnM (Some [''status'' \<mapsto> Str ''GET_REFUND''])
       else returnM None)"

definition waitForRefundConfirmations ::
  "World \<Rightarrow> string \<Rightarrow> string \<Rightarrow> LiqualitySwapHistoryItem \<Rightarrow> update option io"
where
  "waitForRefundConfirmations w network walletId swap =
     (let fromClient = getClient network walletId (fromAsset swap) (fromAccountId swap) in
      catchM
        (bindM (getTransactionByHash w fromClient (refundHash swap)) (\<lambda>tx.
           if hasConfirmations tx then
             bindM (timestampNow w) (\<lambda>now.
               returnM (Some [''endTime'' \<mapsto> Num (of_int now), ''status'' \<mapsto> Str ''REFUNDED'']))
           else returnM None))
        (\<lambda>e. if name e = ''TxNotFoundError''
              then bindM (emit (ConsoleWarn e)) (\<lambda>_. returnM None)
              else throwM e))"

definition refundSwap ::
  "World \<Rightarrow> string \<Rightarrow> string \<Rightarrow> LiqualitySwapHistoryItem \<Rightarrow> update option io"
where
  "refundSwap w network walletId swap =
     (let fromClient = getClient network walletId (fromAsset swap) (fromAccountId swap) in
      bindM (sendLedgerNotification w (fromAccountId swap) ''Signing required to refund the swap.'') (\<lambda>_.
      bindM (call (RefundSwap fromClient (fromSwapParams swap) (fromFundHash swap) (fee swap))
               (\<lambda>t. swapRefundSwap w t fromClient (fromSwapParams swap) (fromFundHash swap) (fee swap)))
        (\<lambda>refundTx.
           returnM (Some [''refundHash'' \<mapsto> Str (hash refundTx), ''refundTx'' \<mapsto> TxVal refundTx,
                          ''status'' \<mapsto> Str ''WAITING_FOR_REFUND_CONFIRMATIONS'']))))"

definition fundSwap ::
  "World \<Rightarrow> string \<Rightarrow> string \<Rightarrow> LiqualitySwapHistoryItem \<Rightarrow> update option io"
where
  "fundSwap w network walletId swap =
     bindM (hasQuoteExpired w swap) (\<lambda>expired.
       if expired then returnM (Some [''status'' \<mapsto> Str ''QUOTE_EXPIRED''])
       else if \<not> isERC20 w (fromAsset swap) then returnM (Some [''status'' \<mapsto> Str ''FUNDED''])
       else
         (let fromClient = getClient network walletId (fromAsset swap) (fromAccountId swap) in
          bindM (sendLedgerNotification w (fromAccountId swap) ''Signing required to fund the swap.'') (\<lambda>_.
          bindM (call (FundSwap fromClient (fromSwapParams swap) (fromFundHash swap) (fee swap))
                   (\<lambda>t. swapFundSwap w t fromClient (fromSwapParams swap) (fromFundHash swap) (fee swap)))
            (\<lambda>fundTx.
               case fundTx of
                 None \<Rightarrow> throwM (Error ''Error'' ''Funding transaction returned null'')
               | Some tx \<Rightarrow>
                   returnM (Some [''fundTxHash'' \<mapsto> Str (hash tx), ''status'' \<mapsto> Str ''FUNDED''])))))"

definition reportInitiation :: "World \<Rightarrow> LiqualitySwapHistoryItem \<Rightarrow> update option io" where
  "reportInitiation w swap =
     bindM (hasQuoteExpired w swap) (\<lambda>expired.
       if expired then returnM (Some [''status'' \<mapsto> Str ''WAITING_FOR_REFUND''])
       else
         bindM (updateOrder w swap) (\<lambda>_.
           returnM (Some [''status'' \<mapsto> Str ''INITIATION_REPORTED''])))"

text \<open>
  \<open>fundingConfirmed\<close> of \<open>findCounterPartyInitiation\<close>: without a funding transaction it
  is true; the chain's safe confirmation count is looked up only for a funding transaction
  with a truthy \<open>confirmations\<close>.
\<close>

definition fundingConfirmed :: "World \<Rightarrow> string \<Rightarrow> Transaction option \<Rightarrow> error + bool" where
  "fundingConfirmed w asset fundingTransaction =
     (case fundingTransaction of
        None \<Rightarrow> Inr True
      | Some ftx \<Rightarrow>
          (case confirmations ftx of
             None \<Rightarrow> Inr False
           | Some n \<Rightarrow>
               if n = 0 then Inr False
               else (case safeConfirmationsOf w asset of
                       Inl e \<Rightarrow> Inl e
                     | Inr safe \<Rightarrow> Inr (n \<ge> safe))))"

definition findCounterPartyInitiation ::
  "World \<Rightarrow> string \<Rightarrow> string \<Rightarrow> LiqualitySwapHistoryItem \<Rightarrow> update option io"
where
  "findCounterPartyInitiation w network walletId swap =
     (let toClient = getClient network walletId (toAsset swap) (toAccountId swap) in
      bindM
        (catchM
           (bindM (call (FindInitiateSwapTransaction toClient (toSwapParams swap))
                     (\<lambda>t. swapFindInitiate w t toClient (toSwapParams swap))) (\<lambda>tx.
              case tx of
                None \<Rightarrow> returnM None
              | Some tx \<Rightarrow>
                  (let toFundHash = hash tx in
                   bindM (call (VerifyInitiateSwapTransaction toClient (toSwapParams swap) toFundHash)
                            (\<lambda>t. swapVerifyInitiate w t toClient (toSwapParams swap) toFundHash)) (\<lambda>isVerified.
                   bindM (call (FindFundSwapTransaction toClient (toSwapParams swap) toFundHash)
                            (\<lambda>t. swapFindFund w t toClient (toSwapParams swap) toFundHash)) (\<lambda>fundingTransaction.
                   bindM (liftE (fundingConfirmed w (toAsset swap) fundingTransaction)) (\<lambda>confirmed.
                     if isVerified \<and> confirmed
                     then returnM (Some [''toFundHash'' \<mapsto> Str toFundHash,
                                         ''status'' \<mapsto> Str ''CONFIRM_COUNTER_PARTY_INITIATION''])
                     else returnM None))))))
           (\<lambda>e. if name e \<in> set [''BlockNotFoundError'', ''PendingTxError'', ''TxNotFoundError'']
                 then bindM (emit (ConsoleWarn e)) (\<lambda>_. returnM None)
                 else throwM e))
        (\<lambda>returned.
           case returned of
             Some u \<Rightarrow> returnM (Some u)
           | None \<Rightarrow> handleExpirations w network walletId swap))"

definition confirmInitiation ::
  "World \<Rightarrow> string \<Rightarrow> string \<Rightarrow> LiqualitySwapHistoryItem \<Rightarrow> update option io"
where
  "confirmInitiation w network walletId swap =
     bindM (findCounterPartyInitiation w network walletId swap) (\<lambda>counterPartyInitiation.
       case counterPartyInitiation of
         Some u \<Rightarrow> returnM (Some u)
       | None \<Rightarrow>
           (let fromClient = getClient network walletId (fromAsset swap) (fromAccountId swap) in
            catchM
              (bindM (getTransactionByHash w fromClient (fromFundHash swap)) (\<lambda>tx.
                 if hasConfirmations tx
                 then returnM (Some [''status'' \<mapsto> Str ''INITIATION_CONFIRMED''])
                 else returnM None))
              (\<lambda>e. if name e = ''TxNotFoundError''
                    then bindM (emit (ConsoleWarn e)) (\<lambda>_. returnM None)
                    else throwM e)))"

text \<open>
  \<open>tx && tx.confirmations && tx.confirmations >= safeConfirmations\<close> of
  \<open>confirmCounterPartyInitiation\<close>, with the same short circuit.
\<close>

definition safelyConfirmed :: "World \<Rightarrow> string \<Rightarrow> Transaction option \<Rightarrow> error + bool" where
  "safelyConfirmed w asset tx =
     (case tx of
        None \<Rightarrow> Inr False
      | Some t \<Rightarrow>
          (case confirmations t of
             None \<Rightarrow> Inr False
           | Some n \<Rightarrow>
               if n = 0 then Inr False
               else (case safeConfirmationsOf w asset of
                       Inl e \<Rightarrow> Inl e
                     | Inr safe \<Rightarrow> Inr (n \<ge> safe))))"

definition confirmCounterPartyInitiation ::
  "World \<Rightarrow> string \<Rightarrow> string \<Rightarrow> LiqualitySwapHistoryItem \<Rightarrow> update option io"
where
  "confirmCounterPartyInitiation w network walletId swap =
     (let toClient = getClient network walletId (toAsset swap) (toAccountId swap) in
      bindM (getTransactionByHash w toClient (toFundHash swap)) (\<lambda>tx.
      bindM (liftE (safelyConfirmed w (toAsset swap) tx)) (\<lambda>ok.
        if ok then returnM (Some [''status'' \<mapsto> Str ''READY_TO_CLAIM''])
        else handleExpirations w network walletId swap)))"

definition claimSwap ::
  "World \<Rightarrow> string \<Rightarrow> string \<Rightarrow> LiqualitySwapHistoryItem \<Rightarrow> update option io"
where
  "claimSwap w network walletId swap =
     bindM (handleExpirations w network walletId swap) (\<lambda>expirationUpdates.
       case expirationUpdates of
         Some u \<Rightarrow> returnM (Some u)
       | None \<Rightarrow>
           (let toClient = getClient network walletId (toAsset swap) (toAccountId swap) in
            bindM (sendLedgerNotification w (toAccountId swap) ''Signing required to claim the swap.'') (\<lambda>_.
            bindM (call (ClaimSwap toClient (toSwapParams swap) (toFundHash swap) (secret swap) (claimFee swap))
                     (\<lambda>t. swapClaimSwap w t toClient (toSwapParams swap) (toFundHash swap) (secret swap)
                             (claimFee swap)))
              (\<lambda>toClaimTx.
                 returnM (Some [''toClaimHash'' \<mapsto> Str (hash toClaimTx), ''toClaimTx'' \<mapsto> TxVal toClaimTx,
                                ''status'' \<mapsto> Str ''WAITING_FOR_CLAIM_CONFIRMATIONS''])))))"

text \<open>
  A call of \<open>performNextSwapAction\<close> may never return: its result is \<open>None\<close> then, and
  \<open>Some\<close> of the result and the trace when it returns or throws.
\<close>

type_synonym 'a task = "event list \<Rightarrow> ((error + 'a) \<times> event list) option"

text \<open>A handler that is returned as it is: the call returns when the handler does.\<close>

definition returned :: "'a io \<Rightarrow> 'a task" where
  "returned action = (\<lambda>tr. Some (action tr))"

text \<open>
  Modelled from the spec: \<open>withInterval\<close> and \<open>withLock\<close> of
  \<open>store/actions/performNextAction/utils\<close> are not among the sources. The scheduler
  (\<open>repeatUntilDone\<close>) invokes the action at once; when the action yields no result it
  waits for its delay (the event \<open>IntervalElapsed\<close>) and invokes the action again,
  forever, until the action yields an update, which it returns. An error that the action
  throws ends the run with that error. The exclusive mode (\<open>runExclusive\<close>) runs the
  action exactly once after the lock is acquired; the wait for the lock, its release and
  the cancellation of a scheduled loop by the engine are not modelled.
\<close>

partial_function (option) withInterval :: "'a option io \<Rightarrow> 'a option task" where
  "withInterval action tr =
     (case action tr of
        (Inl e, tr') \<Rightarrow> Some (Inl e, tr')
      | (Inr (Some updates), tr') \<Rightarrow> Some (Inr (Some updates), tr')
      | (Inr None, tr') \<Rightarrow> withInterval action (tr' @ [IntervalElapsed]))"

definition withLock :: "'a io \<Rightarrow> 'a task" where
  "withLock action = (\<lambda>tr. Some (action tr))"

definition Liquality_performNextSwapAction ::
  "World \<Rightarrow> string \<Rightarrow> string \<Rightarrow> LiqualitySwapHistoryItem \<Rightarrow> update option task"
where
  "Liquality_performNextSwapAction w network walletId swap =
     (if status swap = ''INITIATED'' then returned (reportInitiation w swap)
      else if status swap = ''INITIATION_REPORTED''
        then withInterval (confirmInitiation w network walletId swap)
      else if status swap = ''INITIATION_CONFIRMED''
        then withLock (fundSwap w network walletId swap)
      else if status swap = ''FUNDED''
        then withInterval (findCounterPartyInitiation w network walletId swap)
      else if status swap = ''CONFIRM_COUNTER_PARTY_INITIATION''
        then withInterval (confirmCounterPartyInitiation w network walletId swap)
      else if status swap = ''READY_TO_CLAIM''
        then withLock (claimSwap w network walletId swap)
      else if status swap = ''WAITING_FOR_CLAIM_CONFIRMATIONS''
        then withInterval (waitForClaimConfirmations w network walletId swap)
      else if status swap = ''WAITING_FOR_REFUND''
        then withInterval (waitForRefund w network walletId swap)
      else if status swap = ''GET_REFUND''
        then withLock (refundSwap w network walletId swap)
      else if status swap = ''WAITING_FOR_REFUND_CONFIRMATIONS''
        then withInterval (waitForRefundConfirmations w network walletId swap)
      else returned (returnM None))"

text \<open>The status table: \<open>_getStatuses\<close> (step and filter class) and \<open>_totalSteps\<close>.\<close>

record SwapStatus =
  step :: nat
  label :: string
  filterStatus :: string

definition Liquality_getStatuses :: "(string \<times> SwapStatus) list" where
  "Liquality_getStatuses =
     [(''INITIATED'', \<lparr>step = 0, label = ''Locking {from}'', filterStatus = ''PENDING''\<rparr>),
      (''INITIATION_REPORTED'', \<lparr>step = 0, label = ''Locking {from}'', filterStatus = ''PENDING''\<rparr>),
      (''INITIATION_CONFIRMED'', \<lparr>step = 0, label = ''Locking {from}'', filterStatus = ''PENDING''\<rparr>),
      (''FUNDED'', \<lparr>step = 1, label = ''Locking {to}'', filterStatus = ''PENDING''\<rparr>),
      (''CONFIRM_COUNTER_PARTY_INITIATION'', \<lparr>step = 1, label = ''Locking {to}'', filterStatus = ''PENDING''\<rparr>),
      (''READY_TO_CLAIM'', \<lparr>step = 2, label = ''Claiming {to}'', filterStatus = ''PENDING''\<rparr>),
      (''WAITING_FOR_CLAIM_CONFIRMATIONS'', \<lparr>step = 2, label = ''Claiming {to}'', filterStatus = ''PENDING''\<rparr>),
      (''WAITING_FOR_REFUND'', \<lparr>step = 2, label = ''Pending Refund'', filterStatus = ''PENDING''\<rparr>),
      (''GET_REFUND'', \<lparr>step = 2, label = ''Refunding {from}'', filterStatus = ''PENDING''\<rparr>),
      (''WAITING_FOR_REFUND_CONFIRMATIONS'', \<lparr>step = 2, label = ''Refunding {from}'', filterStatus = ''PENDING''\<rparr>),
      (''REFUNDED'', \<lparr>step = 3, label = ''Refunded'', filterStatus = ''REFUNDED''\<rparr>),
      (''SUCCESS'', \<lparr>step = 3, label = ''Completed'', filterStatus = ''COMPLETED''\<rparr>),
      (''QUOTE_EXPIRED'', \<lparr>step = 3, label = ''Quote Expired'', filterStatus = ''REFUNDED''\<rparr>)]"

definition Liquality_totalSteps :: nat where
  "Liquality_totalSteps = 4"

section \<open>The vault-deposit provider (ThorchainSwapProvider)\<close>

subsection \<open>Amounts: bignumber.js and xchain-util\<close>

text \<open>
  The provider computes with \<open>BigNumber\<close> of bignumber.js and \<open>BaseAmount\<close> of
  \<open>@xchain/xchain-util\<close>; the sources never change the configuration of bignumber.js.
  With that configuration \<open>plus\<close>, \<open>minus\<close> and \<open>multipliedBy\<close> are exact,
  \<open>dividedBy\<close> rounds to 20 decimal places, and an operation called without a rounding
  mode rounds with \<open>ROUND_HALF_UP\<close> (to the nearest value, a tie away from zero);
  \<open>ROUND_DOWN\<close> rounds towards zero. \<open>baseAmount(value, decimal)\<close> keeps
  \<open>value\<close> at 0 decimal places (\<open>fixedBN(value, 0)\<close>, that is \<open>toFixed(0)\<close>).
\<close>

definition ROUND_HALF_UP :: "rat \<Rightarrow> int" where
  "ROUND_HALF_UP x = (if 0 \<le> x then \<lfloor>x + 1 / 2\<rfloor> else - \<lfloor>- x + 1 / 2\<rfloor>)"

definition ROUND_DOWN :: "rat \<Rightarrow> int" where
  "ROUND_DOWN x = (if 0 \<le> x then \<lfloor>x\<rfloor> else - \<lfloor>- x\<rfloor>)"

text \<open>\<open>x.dp(0)\<close> and \<open>x.decimalPlaces(0, BN.ROUND_DOWN)\<close>\<close>

definition dp0 :: "rat \<Rightarrow> int" where
  "dp0 x = ROUND_HALF_UP x"

definition dp0_ROUND_DOWN :: "rat \<Rightarrow> int" where
  "dp0_ROUND_DOWN x = ROUND_DOWN x"

definition dividedBy :: "rat \<Rightarrow> rat \<Rightarrow> rat" where
  "dividedBy x y = of_int (ROUND_HALF_UP (x / y * 10 ^ 20)) / 10 ^ 20"

record BaseAmount =
  amount :: int
  decimal :: nat

definition baseAmount :: "rat \<Rightarrow> nat \<Rightarrow> BaseAmount" where
  "baseAmount v d = \<lparr>amount = ROUND_HALF_UP v, decimal = d\<rparr>"

definition THORCHAIN_DECIMAL :: nat where
  "THORCHAIN_DECIMAL = 8"

definition convertBaseAmountDecimal :: "BaseAmount \<Rightarrow> nat \<Rightarrow> BaseAmount" where
  "convertBaseAmountDecimal a d =
     (let decimalDiff = int d - int (decimal a);
          amountBN =
            (if decimalDiff < 0
             then of_int (dp0_ROUND_DOWN (dividedBy (of_int (amount a)) (10 ^ nat (- decimalDiff))))
             else of_int (amount a) * 10 ^ nat decimalDiff)
      in baseAmount amountBN d)"

text \<open>
  \<open>ethers.BigNumber.from(new BN(x).toFixed())\<close> accepts the text of a whole number only.
\<close>

definition ethersBigNumberFrom :: "rat \<Rightarrow> error + int" where
  "ethersBigNumberFrom x =
     (if of_int \<lfloor>x\<rfloor> = x then Inr \<lfloor>x\<rfloor> else Inl (Error ''Error'' ''invalid BigNumber string''))"

subsection \<open>The swap record and the requests\<close>

record ThorchainSwapHistoryItem = SwapHistoryItem +
  receiveFee :: rat
  slippage :: rat
  maxFeeSlippageMultiplier :: rat
  approveTxHash :: string

definition lookupAsset :: "World \<Rightarrow> string \<Rightarrow> error + AssetInfo" where
  "lookupAsset w asset = (case cryptoassets w asset of None \<Rightarrow> Inl TypeError | Some a \<Rightarrow> Inr a)"

text \<open>An optional text read where the source does not test it: \<open>undefined\<close> is the empty text.\<close>

definition orEmpty :: "string option \<Rightarrow> string" where
  "orEmpty x = (case x of None \<Rightarrow> [] | Some v \<Rightarrow> v)"

definition toThorchainAsset :: "World \<Rightarrow> string \<Rightarrow> error + string" where
  "toThorchainAsset w asset =
     (if isERC20 w asset then
        (case lookupAsset w asset of
           Inl e \<Rightarrow> Inl e
         | Inr a \<Rightarrow> (case contractAddress a of
                       None \<Rightarrow> Inl TypeError
                     | Some c \<Rightarrow> Inr (''ETH.'' @ asset @ ''-'' @ toUpperCase w c)))
      else Inr (asset @ ''.'' @ asset))"

definition getInboundAddress :: "World \<Rightarrow> string \<Rightarrow> ThorchainInboundAddress io" where
  "getInboundAddress w ch =
     bindM (call ThornodeInboundAddresses (\<lambda>t. thornodeInbound w t)) (\<lambda>inboundAddresses.
       case find (\<lambda>inbound. i_chain inbound = ch) inboundAddresses of
         None \<Rightarrow> throwM (Error ''Error'' (''ThorchainSwapProvider: Inbound address for chain '' @ ch @ '' not found''))
       | Some inboundAddress \<Rightarrow> returnM inboundAddress)"

definition getRouterAddress :: "World \<Rightarrow> string \<Rightarrow> string io" where
  "getRouterAddress w ch =
     bindM (getInboundAddress w ch) (\<lambda>inboundAddress.
       case i_router inboundAddress of
         None \<Rightarrow> throwM (Error ''Error'' (''ThorchainSwapProvider: Router address for chain '' @ ch @ '' not found''))
       | Some router \<Rightarrow>
           if router = []
           then throwM (Error ''Error'' (''ThorchainSwapProvider: Router address for chain '' @ ch @ '' not found''))
           else returnM router)"

text \<open>
  \<open>_getTransaction\<close>: the THORNode's record of a transaction; any failure of the request
  is \<open>null\<close>.
\<close>

definition Thorchain_getTransaction :: "World \<Rightarrow> string \<Rightarrow> ThorchainTransactionResponse option io" where
  "Thorchain_getTransaction w h = call (ThornodeGetTx h) (\<lambda>t. Inr (thornodeTx w t h))"

text \<open>
  A promise that is created and not awaited: the request is made, its outcome is kept as a
  value and is not thrown here.
\<close>

definition notAwaited :: "'a io \<Rightarrow> (error + 'a) io" where
  "notAwaited m = (\<lambda>tr. case m tr of (r, tr') \<Rightarrow> (Inr r, tr'))"

definition thorchainAssetOf :: "World \<Rightarrow> string \<Rightarrow> ThorAsset io" where
  "thorchainAssetOf w asset =
     bindM (liftE (toThorchainAsset w asset)) (\<lambda>text.
       case assetFromString w text of
         None \<Rightarrow> throwM (Error ''Error'' ''Thorchain asset does not exist'')
       | Some a \<Rightarrow> returnM a)"

text \<open>\<open>chains[chain].formatAddress(raw, network)\<close>\<close>

definition formatAddressOf :: "World \<Rightarrow> string \<Rightarrow> string \<Rightarrow> string \<Rightarrow> error + string" where
  "formatAddressOf w ch raw network =
     (case chains w ch of None \<Rightarrow> Inl TypeError | Some _ \<Rightarrow> Inr (formatAddress w ch raw network))"

definition approveTokens ::
  "World \<Rightarrow> string \<Rightarrow> string \<Rightarrow> ThorchainSwapHistoryItem \<Rightarrow> update io"
where
  "approveTokens w network walletId swap =
     bindM (liftE (lookupAsset w (fromAsset swap))) (\<lambda>info.
     bindM (thorchainAssetOf w (fromAsset swap)) (\<lambda>fromThorchainAsset.
     bindM (notAwaited (getRouterAddress w (a_chain fromThorchainAsset))) (\<lambda>routerAddress.
     bindM (getSwapAddress w network walletId (fromAsset swap) (toAccountId swap)) (\<lambda>fromAddressRaw.
     bindM (liftE (formatAddressOf w (chain info) fromAddressRaw network)) (\<lambda>fromAddress.
     bindM (call (Erc20Allowance (fromAsset swap) fromAddress)
              (\<lambda>t. erc20Allowance w t (fromAsset swap) fromAddress routerAddress)) (\<lambda>allowance.
     bindM (liftE (ethersBigNumberFrom (fromAmount swap))) (\<lambda>inputAmount.
       if allowance \<ge> of_int inputAmount
       then returnM [''status'' \<mapsto> Str ''APPROVE_CONFIRMED'']
       else
         bindM (liftE (encodeApprove w routerAddress (of_int inputAmount))) (\<lambda>encodedData.
           (let client = getClient network walletId (fromAsset swap) (fromAccountId swap);
                req = \<lparr>t_to = orEmpty (contractAddress info), t_value = 0,
                       t_data = ApproveData encodedData, t_fee = fee swap\<rparr>
            in
            bindM (call (SendTransaction client req) (\<lambda>t. chainSendTransaction w t client req)) (\<lambda>approveTx.
              returnM [''status'' \<mapsto> Str ''WAITING_FOR_APPROVE_CONFIRMATIONS'',
                       ''approveTx'' \<mapsto> TxVal approveTx,
                       ''approveTxHash'' \<mapsto> Str (hash approveTx)]))))))))))"

definition sendBitcoinSwap ::
  "World \<Rightarrow> string \<Rightarrow> string \<Rightarrow> ThorchainSwapHistoryItem \<Rightarrow> SwapMemo \<Rightarrow> Transaction io"
where
  "sendBitcoinSwap w network walletId quote mem =
     bindM (sendLedgerNotification w (fromAccountId quote) ''Signing required to complete the swap.'') (\<lambda>_.
     bindM (thorchainAssetOf w (fromAsset quote)) (\<lambda>fromThorchainAsset.
     bindM (getInboundAddress w (a_chain fromThorchainAsset)) (\<lambda>inbound.
       (let client = getClient network walletId (fromAsset quote) (fromAccountId quote);
            req = \<lparr>t_to = i_address inbound, t_value = fromAmount quote,
                   t_data = MemoHex mem, t_fee = fee quote\<rparr>
        in call (SendTransaction client req) (\<lambda>t. chainSendTransaction w t client req)))))"

definition sendEthereumSwap ::
  "World \<Rightarrow> string \<Rightarrow> string \<Rightarrow> ThorchainSwapHistoryItem \<Rightarrow> SwapMemo \<Rightarrow> Transaction io"
where
  "sendEthereumSwap w network walletId quote mem =
     bindM (sendLedgerNotification w (fromAccountId quote) ''Signing required to complete the swap.'') (\<lambda>_.
     bindM (thorchainAssetOf w (fromAsset quote)) (\<lambda>fromThorchainAsset.
     bindM (getRouterAddress w (a_chain fromThorchainAsset)) (\<lambda>routerAddress.
     bindM (liftE (lookupAsset w (fromAsset quote))) (\<lambda>info.
       (let tokenAddress = (if isERC20 w (fromAsset quote) then orEmpty (contractAddress info)
                            else ''0x0000000000000000000000000000000000000000'')
        in
        bindM (liftE (ethersBigNumberFrom (fromAmount quote))) (\<lambda>amountHex.
        bindM (getInboundAddress w (a_chain fromThorchainAsset)) (\<lambda>inbound.
          (let encodedData = DepositData (i_address inbound) tokenAddress (of_int amountHex) mem;
               val = (if isERC20 w (fromAsset quote) then 0 else fromAmount quote);
               client = getClient network walletId (fromAsset quote) (fromAccountId quote);
               req = \<lparr>t_to = routerAddress, t_value = val, t_data = encodedData, t_fee = fee quote\<rparr>
           in call (SendTransaction client req) (\<lambda>t. chainSendTransaction w t client req)))))))))"

text \<open>
  \<open>makeMemo\<close>. The value is the argument of \<open>getSwapMemo\<close>; its \<open>m_limit\<close> is the
  amount of \<open>limit\<close>.
\<close>

definition makeMemo ::
  "World \<Rightarrow> string \<Rightarrow> string \<Rightarrow> ThorchainSwapHistoryItem \<Rightarrow> SwapMemo io"
where
  "makeMemo w network walletId swap =
     bindM (liftE (lookupAsset w (toAsset swap))) (\<lambda>info.
     bindM (getSwapAddress w network walletId (toAsset swap) (toAccountId swap)) (\<lambda>toAddressRaw.
     bindM (liftE (formatAddressOf w (chain info) toAddressRaw network)) (\<lambda>toAddress.
       (let baseOutputAmount = baseAmount (toAmount swap - receiveFee swap) (decimals info);
            slippageCoefficient = 1 - slippage swap;
            minimumOutput = dp0 (of_int (amount baseOutputAmount) * slippageCoefficient);
            limit = convertBaseAmountDecimal (baseAmount (of_int minimumOutput) (decimals info)) 8
        in
        bindM (thorchainAssetOf w (toAsset swap)) (\<lambda>thorchainAsset.
          returnM \<lparr>m_asset = thorchainAsset, m_address = toAddress, m_limit = amount limit\<rparr>)))))"

definition sendSwap ::
  "World \<Rightarrow> string \<Rightarrow> string \<Rightarrow> ThorchainSwapHistoryItem \<Rightarrow> update io"
where
  "sendSwap w network walletId swap =
     bindM (makeMemo w network walletId swap) (\<lambda>mem.
     bindM (if fromAsset swap = ''BTC''
              then bindM (sendBitcoinSwap w network walletId swap mem) (\<lambda>tx. returnM (Some tx))
            else if fromAsset swap = ''ETH'' \<or> isERC20 w (fromAsset swap)
              then bindM (sendEthereumSwap w network walletId swap mem) (\<lambda>tx. returnM (Some tx))
            else returnM None) (\<lambda>fromFundTx.
       case fromFundTx of
         None \<Rightarrow> throwM (Error ''Error'' ''ThorchainSwapProvider: Did not send swap transaction'')
       | Some tx \<Rightarrow>
           returnM [''status'' \<mapsto> Str ''WAITING_FOR_SEND_CONFIRMATIONS'',
                    ''fromFundTx'' \<mapsto> TxVal tx,
                    ''fromFundHash'' \<mapsto> Str (hash tx)]))"

text \<open>
  \<open>newSwap\<close>: \<open>{ id: uuidv4(), fee: quote.fee, slippage: 50, ...updates }\<close>; the spread
  fields come last and win.
\<close>

definition Thorchain_newSwap ::
  "World \<Rightarrow> string \<Rightarrow> string \<Rightarrow> ThorchainSwapHistoryItem \<Rightarrow> update io"
where
  "Thorchain_newSwap w network walletId quote =
     (let approvalRequired = isERC20 w (fromAsset quote) in
      bindM (if approvalRequired then approveTokens w network walletId quote
             else sendSwap w network walletId quote) (\<lambda>updates.
      bindM (call Uuidv4 (\<lambda>t. Inr (uuid w t))) (\<lambda>newId.
        returnM ([''id'' \<mapsto> Str newId, ''fee'' \<mapsto> Num (fee quote), ''slippage'' \<mapsto> Num 50] ++ updates))))"

subsection \<open>The handlers of the vault-deposit provider\<close>

definition waitForApproveConfirmations ::
  "World \<Rightarrow> string \<Rightarrow> string \<Rightarrow> ThorchainSwapHistoryItem \<Rightarrow> update option io"
where
  "waitForApproveConfirmations w network walletId swap =
     (let client = getClient network walletId (fromAsset swap) (fromAccountId swap) in
      catchM
        (bindM (getTransactionByHash w client (approveTxHash swap)) (\<lambda>tx.
           if hasConfirmations tx then
             bindM (timestampNow w) (\<lambda>now.
               returnM (Some [''endTime'' \<mapsto> Num (of_int now), ''status'' \<mapsto> Str ''APPROVE_CONFIRMED'']))
           else returnM None))
        (\<lambda>e. if name e = ''TxNotFoundError''
              then bindM (emit (ConsoleWarn e)) (\<lambda>_. returnM None)
              else throwM e))"

definition waitForSendConfirmations ::
  "World \<Rightarrow> string \<Rightarrow> string \<Rightarrow> ThorchainSwapHistoryItem \<Rightarrow> update option io"
where
  "waitForSendConfirmations w network walletId swap =
     (let client = getClient network walletId (fromAsset swap) (fromAccountId swap) in
      catchM
        (bindM (getTransactionByHash w client (fromFundHash swap)) (\<lambda>tx.
           if hasConfirmations tx then
             bindM (timestampNow w) (\<lambda>now.
               returnM (Some [''endTime'' \<mapsto> Num (of_int now), ''status'' \<mapsto> Str ''WAITING_FOR_RECEIVE'']))
           else returnM None))
        (\<lambda>e. if name e = ''TxNotFoundError''
              then bindM (emit (ConsoleWarn e)) (\<lambda>_. returnM None)
              else throwM e))"

definition OUT_MEMO_TO_STATUS :: "string \<rightharpoonup> string" where
  "OUT_MEMO_TO_STATUS = [''OUT'' \<mapsto> ''SUCCESS'', ''REFUND'' \<mapsto> ''REFUNDED'']"

text \<open>\<open>out_hashes?.[0]\<close> read as a condition: no first element and the empty text are falsy.\<close>

definition firstOutHash :: "ThorchainTransactionResponse option \<Rightarrow> string option" where
  "firstOutHash thorchainTx =
     (case thorchainTx of
        None \<Rightarrow> None
      | Some r \<Rightarrow> (case out_hashes r of [] \<Rightarrow> None | h # _ \<Rightarrow> if h = [] then None else Some h))"

text \<open>\<open>memo.split(':')[0]\<close>: the text before the first colon.\<close>

definition memoActionOf :: "string \<Rightarrow> string" where
  "memoActionOf m = takeWhile (\<lambda>c. c \<noteq> CHR '':'') m"

text \<open>
  \<open>waitForReceive\<close>. A \<open>null\<close> answer of the chain for the outbound transaction fails in
  both branches of the source's test (the \<open>else\<close> branch reads \<open>receiveTx.hash\<close>), so
  the model tests for it first. A memo action without an entry in \<open>OUT_MEMO_TO_STATUS\<close>
  would leave \<open>status\<close> undefined.
\<close>

definition waitForReceive ::
  "World \<Rightarrow> string \<Rightarrow> string \<Rightarrow> ThorchainSwapHistoryItem \<Rightarrow> update option io"
where
  "waitForReceive w network walletId swap =
     catchM
       (bindM (Thorchain_getTransaction w (fromFundHash swap)) (\<lambda>thorchainTx.
          case firstOutHash thorchainTx of
            None \<Rightarrow> returnM None
          | Some receiveHash \<Rightarrow>
              bindM (Thorchain_getTransaction w receiveHash) (\<lambda>thorchainReceiveTx.
                case thorchainReceiveTx of
                  None \<Rightarrow> returnM None
                | Some receive \<Rightarrow>
                    (case memo receive of
                       None \<Rightarrow> throwM TypeError
                     | Some m \<Rightarrow>
                         (let memoAction = memoActionOf m in
                          bindM (if memoAction = ''OUT''
                                   then returnM (toAsset swap, toAccountId swap)
                                 else if memoAction = ''REFUND''
                                   then returnM (fromAsset swap, fromAccountId swap)
                                 else throwM (Error ''Error''
                                        (''ThorchainSwapProvider: Unknown memo action '' @ memoAction @ ''.'')))
                            (\<lambda>(asset, accountId).
                               (let client = getClient network walletId asset accountId in
                                bindM (getTransactionByHash w client receiveHash) (\<lambda>receiveTx.
                                  case receiveTx of
                                    None \<Rightarrow> throwM TypeError
                                  | Some rtx \<Rightarrow>
                                      if hasConfirmations (Some rtx) then
                                        bindM (emit (UpdateBalances network walletId [asset])) (\<lambda>_.
                                        bindM (timestampNow w) (\<lambda>now.
                                          (let fields = [''receiveTxHash'' \<mapsto> Str (hash rtx),
                                                         ''receiveTx'' \<mapsto> TxVal rtx,
                                                         ''endTime'' \<mapsto> Num (of_int now)]
                                           in returnM (Some (case OUT_MEMO_TO_STATUS memoAction of
                                                               None \<Rightarrow> fields
                                                             | Some st \<Rightarrow> fields(''status'' \<mapsto> Str st))))))
                                      else
                                        returnM (Some [''receiveTxHash'' \<mapsto> Str (hash rtx),
                                                       ''receiveTx'' \<mapsto> TxVal rtx])))))))))
       (\<lambda>e. if name e = ''TxNotFoundError''
             then bindM (emit (ConsoleWarn e)) (\<lambda>_. returnM None)
             else throwM e)"

definition Thorchain_performNextSwapAction ::
  "World \<Rightarrow> string \<Rightarrow> string \<Rightarrow> ThorchainSwapHistoryItem \<Rightarrow> update option task"
where
  "Thorchain_performNextSwapAction w network walletId swap =
     (if status swap = ''WAITING_FOR_APPROVE_CONFIRMATIONS''
        then withInterval (waitForApproveConfirmations w network walletId swap)
      else if status swap = ''APPROVE_CONFIRMED''
        then withLock (bindM (sendSwap w network walletId swap) (\<lambda>u. returnM (Some u)))
      else if status swap = ''WAITING_FOR_SEND_CONFIRMATIONS''
        then withInterval (waitForSendConfirmations w network walletId swap)
      else if status swap = ''WAITING_FOR_RECEIVE''
        then withInterval (waitForReceive w network walletId swap)
      else returned (returnM None))"

definition Thorchain_getStatuses :: "(string \<times> SwapStatus) list" where
  "Thorchain_getStatuses =
     [(''WAITING_FOR_APPROVE_CONFIRMATIONS'', \<lparr>step = 0, label = ''Approving {from}'', filterStatus = ''PENDING''\<rparr>),
      (''APPROVE_CONFIRMED'', \<lparr>step = 1, label = ''Swapping {from}'', filterStatus = ''PENDING''\<rparr>),
      (''WAITING_FOR_SEND_CONFIRMATIONS'', \<lparr>step = 1, label = ''Swapping {from}'', filterStatus = ''PENDING''\<rparr>),
      (''WAITING_FOR_RECEIVE'', \<lparr>step = 2, label = ''Swapping {from}'', filterStatus = ''PENDING''\<rparr>),
      (''SUCCESS'', \<lparr>step = 3, label = ''Completed'', filterStatus = ''COMPLETED''\<rparr>),
      (''REFUNDED'', \<lparr>step = 3, label = ''Refunded'', filterStatus = ''REFUNDED''\<rparr>)]"

definition Thorchain_totalSteps :: nat where
  "Thorchain_totalSteps = 4"

section \<open>Observations on runs\<close>

text \<open>
  The calls that submit a transaction: the HTLC calls of \<open>client.swap\<close> that fund,
  claim or refund, and \<open>client.chain.sendTransaction\<close>.
\<close>

fun submits :: "event \<Rightarrow> bool" where
  "submits (InitiateSwap c p f) = True"
| "submits (FundSwap c p h f) = True"
| "submits (ClaimSwap c p h s f) = True"
| "submits (RefundSwap c p h f) = True"
| "submits (SendTransaction c r) = True"
| "submits e = False"

text \<open>The calls a run made: what it appended to the trace it started from.\<close>

definition newCalls :: "event list \<Rightarrow> event list \<Rightarrow> event list" where
  "newCalls tr tr' = drop (length tr) tr'"

text \<open>
  A computation is quiet when, from every trace and whatever the collaborators answer, it
  only appends calls, none of which submits a transaction.
\<close>

definition quiet :: "'a io \<Rightarrow> bool" where
  "quiet m = (\<forall>tr. \<exists>evs. snd (m tr) = tr @ evs \<and> (\<forall>e \<in> set evs. \<not> submits e))"

text \<open>\<open>returns m P\<close>: whenever \<open>m\<close> returns a value (does not throw), the value satisfies \<open>P\<close>.\<close>

definition returns :: "'a io \<Rightarrow> ('a \<Rightarrow> bool) \<Rightarrow> bool" where
  "returns m P = (\<forall>tr x tr'. m tr = (Inr x, tr') \<longrightarrow> P x)"

text \<open>The same for a call that may not return.\<close>

definition taskReturns :: "'a task \<Rightarrow> ('a \<Rightarrow> bool) \<Rightarrow> bool" where
  "taskReturns m P = (\<forall>tr x tr'. m tr = Some (Inr x, tr') \<longrightarrow> P x)"

text \<open>The \<open>status\<close> of an update, when it sets one, is among the listed ones.\<close>

definition statusAmong :: "string list \<Rightarrow> update option \<Rightarrow> bool" where
  "statusAmong allowed r = (\<forall>u s. r = Some u \<longrightarrow> u ''status'' = Some (Str s) \<longrightarrow> s \<in> set allowed)"

text \<open>The step index a status table gives a status.\<close>

definition stepOf :: "(string \<times> SwapStatus) list \<Rightarrow> string \<Rightarrow> nat option" where
  "stepOf table s = map_option step (map_of table s)"

text \<open>
  An update moves a swap of status \<open>s\<close> forward in a table: when it sets a status, both
  statuses are in the table and the step index does not decrease.
\<close>

definition advances :: "(string \<times> SwapStatus) list \<Rightarrow> string \<Rightarrow> update option \<Rightarrow> bool" where
  "advances table s r =
     (\<forall>u s'. r = Some u \<longrightarrow> u ''status'' = Some (Str s') \<longrightarrow>
        (\<exists>a b. stepOf table s = Some a \<and> stepOf table s' = Some b \<and> a \<le> b))"

text \<open>
  The labels of the \<open>switch\<close> of \<open>performNextSwapAction\<close> of each provider; a status
  of the table without a label is terminal. The waiting statuses are the labels whose
  action runs under \<open>withInterval\<close>.
\<close>

definition Liquality_dispatched :: "string list" where
  "Liquality_dispatched =
     [''INITIATED'', ''INITIATION_REPORTED'', ''INITIATION_CONFIRMED'', ''FUNDED'',
      ''CONFIRM_COUNTER_PARTY_INITIATION'', ''READY_TO_CLAIM'', ''WAITING_FOR_CLAIM_CONFIRMATIONS'',
      ''WAITING_FOR_REFUND'', ''GET_REFUND'', ''WAITING_FOR_REFUND_CONFIRMATIONS'']"

definition Thorchain_dispatched :: "string list" where
  "Thorchain_dispatched =
     [''WAITING_FOR_APPROVE_CONFIRMATIONS'', ''APPROVE_CONFIRMED'', ''WAITING_FOR_SEND_CONFIRMATIONS'',
      ''WAITING_FOR_RECEIVE'']"










text \<open>
  The minimum output as the specification words it: \<open>toAmount - receiveFee\<close>, reduced
  by \<open>(1 - slippage)\<close>, rounded down.
\<close>

definition spec_minimumOutput :: "rat \<Rightarrow> rat \<Rightarrow> rat \<Rightarrow> int" where
  "spec_minimumOutput toAmt rfee slip = \<lfloor>(toAmt - rfee) * (1 - slip)\<rfloor>"

section \<open>Example data\<close>

text \<open>
  A world with one answer for every transaction lookup and one time for every block, over
  a catalogue of three assets, and a swap of each provider. The worked instances below run
  the handlers on them.
\<close>

definition exampleWorld :: "(error + Transaction option) \<Rightarrow> int \<Rightarrow> World" where
  "exampleWorld txAnswer blockTime =
     \<lparr>cryptoassets =
        [''BTC'' \<mapsto> \<lparr>chain = ''bitcoin'', decimals = 8, erc20 = False, contractAddress = None\<rparr>,
         ''ETH'' \<mapsto> \<lparr>chain = ''ethereum'', decimals = 18, erc20 = False, contractAddress = None\<rparr>,
         ''DAI'' \<mapsto> \<lparr>chain = ''ethereum'', decimals = 18, erc20 = True, contractAddress = Some ''0x6b17''\<rparr>],
      chains =
        [''bitcoin'' \<mapsto> \<lparr>safeConfirmations = 1, nativeAsset = ''BTC''\<rparr>,
         ''ethereum'' \<mapsto> \<lparr>safeConfirmations = 3, nativeAsset = ''ETH''\<rparr>],
      dateNow = (\<lambda>t. 1000),
      agentOrder = (\<lambda>t from to amount.
         Inr \<lparr>o_orderId = ''order-1'', o_fromAmount = amount, o_toAmount = 99,
              o_expiresAt = 2000, o_swapExpiration = 5000, o_nodeSwapExpiration = 4000,
              o_fromCounterPartyAddress = ''agent-from'', o_toCounterPartyAddress = ''agent-to''\<rparr>),
      agentOrderUpdate = (\<lambda>t orderId. Inr ()),
      swapAddress = (\<lambda>t network walletId asset accountId. Inr (''addr-'' @ asset)),
      swapGenerateSecret = (\<lambda>t c. Inr ''secret''),
      sha256 = (\<lambda>s. ''hash-of-'' @ s),
      swapInitiateSwap = (\<lambda>t c p f. Inr \<lparr>hash = ''fund'', confirmations = None\<rparr>),
      swapFundSwap = (\<lambda>t c p h f. Inr (Some \<lparr>hash = ''fund2'', confirmations = None\<rparr>)),
      swapClaimSwap = (\<lambda>t c p h s f. Inr \<lparr>hash = ''claim'', confirmations = None\<rparr>),
      swapRefundSwap = (\<lambda>t c p h f. Inr \<lparr>hash = ''refund'', confirmations = None\<rparr>),
      swapFindInitiate = (\<lambda>t c p. Inr None),
      swapVerifyInitiate = (\<lambda>t c p h. Inr True),
      swapFindFund = (\<lambda>t c p h. Inr None),
      chainGetTransactionByHash = (\<lambda>t c h. txAnswer),
      chainGetBlockHeight = (\<lambda>t c. Inr 7),
      chainGetBlockByNumber = (\<lambda>t c n. Inr \<lparr>timestamp = blockTime\<rparr>),
      chainSendTransaction = (\<lambda>t c r. Inr \<lparr>hash = ''sent'', confirmations = None\<rparr>),
      ledgerNotification = (\<lambda>t a. Inr ()),
      thornodeTx = (\<lambda>t h. if h = ''fund'' then Some \<lparr>out_hashes = [''out''], memo = None\<rparr>
                           else Some \<lparr>out_hashes = [], memo = Some ''OUT:FUND''\<rparr>),
      thornodeInbound = (\<lambda>t. Inr [\<lparr>i_chain = ''BTC'', i_address = ''vault-btc'', i_router = None\<rparr>,
                                   \<lparr>i_chain = ''ETH'', i_address = ''vault-eth'', i_router = Some ''router-eth''\<rparr>]),
      erc20Allowance = (\<lambda>t asset owner router. Inr 0),
      uuid = (\<lambda>t. ''uuid-1''),
      formatAddress = (\<lambda>ch raw network. raw),
      assetFromString = (\<lambda>s. Some \<lparr>a_chain = takeWhile (\<lambda>c. c \<noteq> CHR ''.'') s,
                                     a_symbol = drop 1 (dropWhile (\<lambda>c. c \<noteq> CHR ''.'') s)\<rparr>),
      toUpperCase = (\<lambda>s. s),
      encodeApprove = (\<lambda>router amount. Inr ''approve-call'')\<rparr>"

definition exampleThorchainSwap :: "string \<Rightarrow> rat \<Rightarrow> rat \<Rightarrow> rat \<Rightarrow> string \<Rightarrow> ThorchainSwapHistoryItem" where
  "exampleThorchainSwap from toAmt rfee slip st =
     \<lparr>swapId = ''swap-1'', fromAsset = from, toAsset = ''BTC'', fromAmount = 5, toAmount = toAmt,
      fromAccountId = ''acc-from'', toAccountId = ''acc-to'', fee = 2, claimFee = 3,
      status = st, fromFundHash = ''fund'', fromFundTx = None,
      receiveFee = rfee, slippage = slip, maxFeeSlippageMultiplier = 3, approveTxHash = ''approve''\<rparr>"

definition exampleLiqualitySwap :: "rat \<Rightarrow> string \<Rightarrow> LiqualitySwapHistoryItem" where
  "exampleLiqualitySwap toAmt st =
     \<lparr>swapId = ''swap-2'', fromAsset = ''BTC'', toAsset = ''ETH'', fromAmount = 5, toAmount = toAmt,
      fromAccountId = ''acc-from'', toAccountId = ''acc-to'', fee = 2, claimFee = 3,
      status = st, fromFundHash = ''fund'', fromFundTx = None,
      orderId = ''order-1'', fromAddress = ''addr-BTC'', toAddress = ''addr-ETH'',
      fromCounterPartyAddress = ''agent-from'', toCounterPartyAddress = ''agent-to'',
      secretHash = ''hash-of-secret'', secret = ''secret'',
      expiresAt = 2000, swapExpiration = 5000, nodeSwapExpiration = 4000,
      refundHash = ''refund'', toClaimHash = ''claim'', toFundHash = ''counter''\<rparr>"

section \<open>Reasoning about runs\<close>

lemmas io_defs = bindM_def returnM_def throwM_def catchM_def call_def emit_def liftE_def

lemmas example_defs = exampleWorld_def exampleThorchainSwap_def exampleLiqualitySwap_def

lemmas call_defs = getTransactionByHash_def timestampNow_def getSwapAddress_def sendLedgerNotification_def
  getClient_def hasConfirmations_def Let_def

lemmas eval_defs = example_defs call_defs io_defs

subsection \<open>Flooring quotients of numerals\<close>

lemma floor_rat_numeral_divide [simp]: "\<lfloor>(numeral a :: rat) / numeral b\<rfloor> = numeral a div numeral b"
  using floor_divide_of_int_eq [of "numeral a" "numeral b", where ?'a = rat] by simp

lemma floor_rat_one_divide [simp]: "\<lfloor>(1 :: rat) / numeral b\<rfloor> = 1 div numeral b"
  using floor_divide_of_int_eq [of 1 "numeral b", where ?'a = rat] by simp

subsection \<open>Rules for \<open>returns\<close>\<close>

lemma returns_returnM: "P x \<Longrightarrow> returns (returnM x) P"
  by (simp add: returns_def returnM_def)

lemma returns_throwM: "returns (throwM e) P"
  by (simp add: returns_def throwM_def)

lemma returns_bindM: "(\<And>x. returns (f x) P) \<Longrightarrow> returns (bindM m f) P"
  by (auto simp: returns_def bindM_def split: prod.splits sum.splits)

lemma returns_bindM_with: "returns m Q \<Longrightarrow> (\<And>x. Q x \<Longrightarrow> returns (f x) P) \<Longrightarrow> returns (bindM m f) P"
  by (fastforce simp: returns_def bindM_def split: prod.splits sum.splits)

lemma returns_catchM: "returns m P \<Longrightarrow> (\<And>e. returns (h e) P) \<Longrightarrow> returns (catchM m h) P"
  by (fastforce simp: returns_def catchM_def split: prod.splits sum.splits)

lemma returns_if: "(c \<Longrightarrow> returns a P) \<Longrightarrow> (\<not> c \<Longrightarrow> returns b P) \<Longrightarrow> returns (if c then a else b) P"
  by simp

lemma returns_case_option:
  "(x = None \<Longrightarrow> returns a P) \<Longrightarrow> (\<And>y. x = Some y \<Longrightarrow> returns (b y) P)
     \<Longrightarrow> returns (case x of None \<Rightarrow> a | Some y \<Rightarrow> b y) P"
  by (cases x) simp_all

lemma returns_case_prod: "(\<And>a b. returns (f a b) P) \<Longrightarrow> returns (case x of (a, b) \<Rightarrow> f a b) P"
  by (cases x) simp

lemma returns_weaken: "returns m Q \<Longrightarrow> (\<And>x. Q x \<Longrightarrow> P x) \<Longrightarrow> returns m P"
  by (auto simp: returns_def)

lemma returns_bindM_choice:
  "(c1 \<Longrightarrow> returns (f x1) P) \<Longrightarrow> (\<not> c1 \<Longrightarrow> c2 \<Longrightarrow> returns (f x2) P)
     \<Longrightarrow> returns (bindM (if c1 then returnM x1 else if c2 then returnM x2 else throwM e) f) P"
  by (auto simp: returns_def bindM_def returnM_def throwM_def)

lemma returnsD: "returns m P \<Longrightarrow> m tr = (Inr x, tr') \<Longrightarrow> P x"
  unfolding returns_def by blast

lemmas returns_intros = returns_returnM returns_throwM returns_catchM returns_if returns_case_option
  returns_case_prod returns_bindM

subsection \<open>Rules for \<open>quiet\<close>\<close>













lemma quiet_extends: "quiet m \<Longrightarrow> \<exists>evs. snd (m tr) = tr @ evs"
  unfolding quiet_def by blast

subsection \<open>The scheduler\<close>

lemma withInterval_unfold:
  "withInterval action tr =
     (if fst (action tr) = Inr None then withInterval action (snd (action tr) @ [IntervalElapsed])
      else Some (action tr))"
  by (subst withInterval.simps) (auto split: prod.splits sum.splits option.splits)

text \<open>
  Induction over a run of the scheduler that returns: what holds of the invocation that
  ended the run, and is carried back over every fruitless invocation, holds of the run.
\<close>

lemma withInterval_induct:
  assumes run: "withInterval action tr = Some y"
    and stop: "\<And>tr. fst (action tr) \<noteq> Inr None \<Longrightarrow> P tr (action tr)"
    and retry: "\<And>tr y. fst (action tr) = Inr None
                  \<Longrightarrow> P (snd (action tr) @ [IntervalElapsed]) y \<Longrightarrow> P tr y"
  shows "P tr y"
proof -
  have "action = action \<longrightarrow> P tr y"
  proof (rule withInterval.raw_induct [where P = "\<lambda>a t y. a = action \<longrightarrow> P t y", OF _ run], rule impI)
    fix f a t z
    assume IH: "\<And>a t z. f a t = Some z \<Longrightarrow> a = action \<longrightarrow> P t z"
      and eq: "(case a t of (Inl e, tr') \<Rightarrow> Some (Inl e, tr')
                | (Inr None, tr') \<Rightarrow> f a (tr' @ [IntervalElapsed])
                | (Inr (Some updates), tr') \<Rightarrow> Some (Inr (Some updates), tr')) = Some z"
      and a: "a = action"
    show "P t z"
    proof (cases "fst (action t) = Inr None")
      case True
      with eq a have "f action (snd (action t) @ [IntervalElapsed]) = Some z"
        by (auto split: prod.splits sum.splits option.splits)
      with IH have "P (snd (action t) @ [IntervalElapsed]) z" by blast
      with True show ?thesis by (rule retry)
    next
      case False
      with eq a have "action t = z"
        by (auto split: prod.splits sum.splits option.splits)
      with stop [OF False] show ?thesis by simp
    qed
  qed
  then show ?thesis by simp
qed

lemma withInterval_result:
  assumes "withInterval action tr = Some y"
  shows "\<exists>tr0. action tr0 = y \<and> fst y \<noteq> Inr None"
  using assms by (rule withInterval_induct) auto



lemma taskReturns_withInterval: "returns action P \<Longrightarrow> taskReturns (withInterval action) P"
  unfolding taskReturns_def
proof (intro allI impI)
  fix tr x tr'
  assume r: "returns action P" and "withInterval action tr = Some (Inr x, tr')"
  from withInterval_result [OF this(2)] obtain tr0 where "action tr0 = (Inr x, tr')" by blast
  with r show "P x" by (rule returnsD)
qed

lemma taskReturns_withLock: "returns action P \<Longrightarrow> taskReturns (withLock action) P"
  by (auto simp: taskReturns_def withLock_def returns_def)

lemma taskReturns_returned: "returns action P \<Longrightarrow> taskReturns (returned action) P"
  by (auto simp: taskReturns_def returned_def returns_def)

lemma taskReturns_if:
  "(c \<Longrightarrow> taskReturns a P) \<Longrightarrow> (\<not> c \<Longrightarrow> taskReturns b P) \<Longrightarrow> taskReturns (if c then a else b) P"
  by simp

lemma taskReturnsD: "taskReturns m P \<Longrightarrow> m tr = Some (Inr x, tr') \<Longrightarrow> P x"
  unfolding taskReturns_def by blast

section \<open>The bounded retry of \<open>hasChainTimePassed\<close>\<close>

lemma hasChainTimePassed_unrolled:
  "hasChainTimePassed w network walletId asset ts accountId tr =
     (let c = getClient network walletId asset accountId in
      case chainRead w c tr of
        (Inr b, t1) \<Rightarrow> (Inr (Some (timestamp b > ts)), t1)
      | (Inl e1, t1) \<Rightarrow>
          (case chainRead w c (t1 @ [ConsoleWarn e1, Wait 2000]) of
             (Inr b, t2) \<Rightarrow> (Inr (Some (timestamp b > ts)), t2)
           | (Inl e2, t2) \<Rightarrow>
               (case chainRead w c (t2 @ [ConsoleWarn e2, Wait 2000]) of
                  (Inr b, t3) \<Rightarrow> (Inr (Some (timestamp b > ts)), t3)
                | (Inl e3, t3) \<Rightarrow> (Inl e3, t3))))"
  by (simp add: hasChainTimePassed_def Let_def split: prod.splits sum.splits)







section \<open>The statuses the handlers can set\<close>

lemma statusAmong_None [simp]: "statusAmong allowed None"
  by (simp add: statusAmong_def)

lemma statusAmong_mono: "statusAmong xs r \<Longrightarrow> set xs \<subseteq> set ys \<Longrightarrow> statusAmong ys r"
  by (auto simp: statusAmong_def)

lemma returns_passOn:
  assumes "returns m (statusAmong ys)" and "statusAmong xs r" and "set xs \<subseteq> set zs" and "set ys \<subseteq> set zs"
  shows "returns (case r of None \<Rightarrow> m | Some u \<Rightarrow> returnM (Some u)) (statusAmong zs)"
proof (cases r)
  case None
  with assms(1,4) show ?thesis by (auto intro: returns_weaken statusAmong_mono)
next
  case (Some u)
  with assms(2,3) show ?thesis by (auto intro!: returns_returnM intro: statusAmong_mono)
qed

lemma handleExpirations_status:
  "returns (handleExpirations w network walletId swap) (statusAmong [''GET_REFUND'', ''WAITING_FOR_REFUND''])"
  unfolding handleExpirations_def
  by (intro returns_intros) (simp_all add: statusAmong_def)

lemma findCounterPartyInitiation_status:
  "returns (findCounterPartyInitiation w network walletId swap)
     (statusAmong [''CONFIRM_COUNTER_PARTY_INITIATION'', ''GET_REFUND'', ''WAITING_FOR_REFUND''])"
  unfolding findCounterPartyInitiation_def Let_def
  apply (rule returns_bindM_with [where Q = "statusAmong [''CONFIRM_COUNTER_PARTY_INITIATION'']"])
  subgoal by (intro returns_intros) (simp_all add: statusAmong_def)
  subgoal by (rule returns_passOn [OF handleExpirations_status,
        where xs = "[''CONFIRM_COUNTER_PARTY_INITIATION'']"]) simp_all
  done

lemma confirmInitiation_status:
  "returns (confirmInitiation w network walletId swap)
     (statusAmong [''CONFIRM_COUNTER_PARTY_INITIATION'', ''GET_REFUND'', ''WAITING_FOR_REFUND'',
                   ''INITIATION_CONFIRMED''])"
  unfolding confirmInitiation_def Let_def
  apply (rule returns_bindM_with [OF findCounterPartyInitiation_status])
  apply (rule returns_passOn [where ys = "[''INITIATION_CONFIRMED'']"
        and xs = "[''CONFIRM_COUNTER_PARTY_INITIATION'', ''GET_REFUND'', ''WAITING_FOR_REFUND'']"])
     apply (intro returns_intros)
       apply (simp_all add: statusAmong_def)
  done

lemma confirmCounterPartyInitiation_status:
  "returns (confirmCounterPartyInitiation w network walletId swap)
     (statusAmong [''READY_TO_CLAIM'', ''GET_REFUND'', ''WAITING_FOR_REFUND''])"
  unfolding confirmCounterPartyInitiation_def Let_def
  apply (intro returns_intros)
   apply (simp add: statusAmong_def)
  apply (rule returns_weaken [OF handleExpirations_status])
  apply (erule statusAmong_mono, simp)
  done

lemma claimSwap_status:
  "returns (claimSwap w network walletId swap)
     (statusAmong [''GET_REFUND'', ''WAITING_FOR_REFUND'', ''WAITING_FOR_CLAIM_CONFIRMATIONS''])"
  unfolding claimSwap_def Let_def
  apply (rule returns_bindM_with [OF handleExpirations_status])
  apply (rule returns_passOn [where ys = "[''WAITING_FOR_CLAIM_CONFIRMATIONS'']"
        and xs = "[''GET_REFUND'', ''WAITING_FOR_REFUND'']"])
     apply (intro returns_intros)
     apply (simp_all add: statusAmong_def)
  done

lemma waitForClaimConfirmations_status:
  "returns (waitForClaimConfirmations w network walletId swap)
     (statusAmong [''SUCCESS'', ''GET_REFUND'', ''WAITING_FOR_REFUND''])"
  unfolding waitForClaimConfirmations_def Let_def
  apply (rule returns_bindM_with [where Q = "statusAmong [''SUCCESS'']"])
  subgoal by (intro returns_intros) (simp_all add: statusAmong_def)
  subgoal by (rule returns_passOn [OF handleExpirations_status, where xs = "[''SUCCESS'']"]) simp_all
  done

lemma waitForRefund_status:
  "returns (waitForRefund w network walletId swap) (statusAmong [''GET_REFUND''])"
  unfolding waitForRefund_def
  by (intro returns_intros) (simp_all add: statusAmong_def)

lemma waitForRefundConfirmations_status:
  "returns (waitForRefundConfirmations w network walletId swap) (statusAmong [''REFUNDED''])"
  unfolding waitForRefundConfirmations_def Let_def
  by (intro returns_intros) (simp_all add: statusAmong_def)

lemma refundSwap_status:
  "returns (refundSwap w network walletId swap) (statusAmong [''WAITING_FOR_REFUND_CONFIRMATIONS''])"
  unfolding refundSwap_def Let_def
  by (intro returns_intros) (simp_all add: statusAmong_def)

lemma fundSwap_status:
  "returns (fundSwap w network walletId swap) (statusAmong [''QUOTE_EXPIRED'', ''FUNDED''])"
  unfolding fundSwap_def Let_def
  by (intro returns_intros) (simp_all add: statusAmong_def)

lemma reportInitiation_status:
  "returns (reportInitiation w swap) (statusAmong [''WAITING_FOR_REFUND'', ''INITIATION_REPORTED''])"
  unfolding reportInitiation_def
  by (intro returns_intros) (simp_all add: statusAmong_def)

lemma waitForApproveConfirmations_status:
  "returns (waitForApproveConfirmations w network walletId swap) (statusAmong [''APPROVE_CONFIRMED''])"
  unfolding waitForApproveConfirmations_def Let_def
  by (intro returns_intros) (simp_all add: statusAmong_def)

lemma waitForSendConfirmations_status:
  "returns (waitForSendConfirmations w network walletId swap) (statusAmong [''WAITING_FOR_RECEIVE''])"
  unfolding waitForSendConfirmations_def Let_def
  by (intro returns_intros) (simp_all add: statusAmong_def)

lemma sendSwap_status:
  "returns (bindM (sendSwap w network walletId swap) (\<lambda>u. returnM (Some u)))
     (statusAmong [''WAITING_FOR_SEND_CONFIRMATIONS''])"
  unfolding sendSwap_def Let_def
  apply (rule returns_bindM_with [where Q = "\<lambda>u. u ''status'' = Some (Str ''WAITING_FOR_SEND_CONFIRMATIONS'')"])
   apply (intro returns_intros)
    apply simp_all
  apply (rule returns_returnM)
  apply (simp add: statusAmong_def)
  done

lemma waitForReceive_status:
  "returns (waitForReceive w network walletId swap) (statusAmong [''SUCCESS'', ''REFUNDED''])"
  unfolding waitForReceive_def Let_def
  by (intro returns_bindM_choice returns_intros)
     (auto simp: statusAmong_def OUT_MEMO_TO_STATUS_def split: if_splits)

lemma Liquality_steps:
  "stepOf Liquality_getStatuses ''INITIATED'' = Some 0"
  "stepOf Liquality_getStatuses ''INITIATION_REPORTED'' = Some 0"
  "stepOf Liquality_getStatuses ''INITIATION_CONFIRMED'' = Some 0"
  "stepOf Liquality_getStatuses ''FUNDED'' = Some 1"
  "stepOf Liquality_getStatuses ''CONFIRM_COUNTER_PARTY_INITIATION'' = Some 1"
  "stepOf Liquality_getStatuses ''READY_TO_CLAIM'' = Some 2"
  "stepOf Liquality_getStatuses ''WAITING_FOR_CLAIM_CONFIRMATIONS'' = Some 2"
  "stepOf Liquality_getStatuses ''WAITING_FOR_REFUND'' = Some 2"
  "stepOf Liquality_getStatuses ''GET_REFUND'' = Some 2"
  "stepOf Liquality_getStatuses ''WAITING_FOR_REFUND_CONFIRMATIONS'' = Some 2"
  "stepOf Liquality_getStatuses ''REFUNDED'' = Some 3"
  "stepOf Liquality_getStatuses ''SUCCESS'' = Some 3"
  "stepOf Liquality_getStatuses ''QUOTE_EXPIRED'' = Some 3"
  by (simp_all add: stepOf_def Liquality_getStatuses_def)

lemma Thorchain_steps:
  "stepOf Thorchain_getStatuses ''WAITING_FOR_APPROVE_CONFIRMATIONS'' = Some 0"
  "stepOf Thorchain_getStatuses ''APPROVE_CONFIRMED'' = Some 1"
  "stepOf Thorchain_getStatuses ''WAITING_FOR_SEND_CONFIRMATIONS'' = Some 1"
  "stepOf Thorchain_getStatuses ''WAITING_FOR_RECEIVE'' = Some 2"
  "stepOf Thorchain_getStatuses ''SUCCESS'' = Some 3"
  "stepOf Thorchain_getStatuses ''REFUNDED'' = Some 3"
  by (simp_all add: stepOf_def Thorchain_getStatuses_def)

lemma advances_None [simp]: "advances table s None"
  by (simp add: advances_def)

lemma Liquality_advances:
  "taskReturns (Liquality_performNextSwapAction w network walletId swap)
     (advances Liquality_getStatuses (status swap))"
  unfolding Liquality_performNextSwapAction_def
  apply (intro taskReturns_if)
            apply (rule taskReturns_returned, rule returns_weaken [OF reportInitiation_status], (auto simp: statusAmong_def advances_def Liquality_steps)[1])
           apply (rule taskReturns_withInterval, rule returns_weaken [OF confirmInitiation_status], (auto simp: statusAmong_def advances_def Liquality_steps)[1])
          apply (rule taskReturns_withLock, rule returns_weaken [OF fundSwap_status], (auto simp: statusAmong_def advances_def Liquality_steps)[1])
         apply (rule taskReturns_withInterval, rule returns_weaken [OF findCounterPartyInitiation_status], (auto simp: statusAmong_def advances_def Liquality_steps)[1])
        apply (rule taskReturns_withInterval, rule returns_weaken [OF confirmCounterPartyInitiation_status], (auto simp: statusAmong_def advances_def Liquality_steps)[1])
       apply (rule taskReturns_withLock, rule returns_weaken [OF claimSwap_status], (auto simp: statusAmong_def advances_def Liquality_steps)[1])
      apply (rule taskReturns_withInterval, rule returns_weaken [OF waitForClaimConfirmations_status], (auto simp: statusAmong_def advances_def Liquality_steps)[1])
     apply (rule taskReturns_withInterval, rule returns_weaken [OF waitForRefund_status], (auto simp: statusAmong_def advances_def Liquality_steps)[1])
    apply (rule taskReturns_withLock, rule returns_weaken [OF refundSwap_status], (auto simp: statusAmong_def advances_def Liquality_steps)[1])
   apply (rule taskReturns_withInterval, rule returns_weaken [OF waitForRefundConfirmations_status], (auto simp: statusAmong_def advances_def Liquality_steps)[1])
  apply (rule taskReturns_returned, rule returns_returnM, simp)
  done

lemma Thorchain_advances:
  "taskReturns (Thorchain_performNextSwapAction w network walletId swap)
     (advances Thorchain_getStatuses (status swap))"
  unfolding Thorchain_performNextSwapAction_def
  apply (intro taskReturns_if)
      apply (rule taskReturns_withInterval, rule returns_weaken [OF waitForApproveConfirmations_status], (auto simp: statusAmong_def advances_def Thorchain_steps)[1])
     apply (rule taskReturns_withLock, rule returns_weaken [OF sendSwap_status], (auto simp: statusAmong_def advances_def Thorchain_steps)[1])
    apply (rule taskReturns_withInterval, rule returns_weaken [OF waitForSendConfirmations_status], (auto simp: statusAmong_def advances_def Thorchain_steps)[1])
   apply (rule taskReturns_withInterval, rule returns_weaken [OF waitForReceive_status], (auto simp: statusAmong_def advances_def Thorchain_steps)[1])
  apply (rule taskReturns_returned, rule returns_returnM, simp)
  done

lemma Liquality_not_dispatched:
  "status swap \<notin> set Liquality_dispatched
     \<Longrightarrow> Liquality_performNextSwapAction w network walletId swap tr = Some (Inr None, tr)"
  by (simp add: Liquality_dispatched_def Liquality_performNextSwapAction_def returned_def returnM_def)

lemma Thorchain_not_dispatched:
  "status swap \<notin> set Thorchain_dispatched
     \<Longrightarrow> Thorchain_performNextSwapAction w network walletId swap tr = Some (Inr None, tr)"
  by (simp add: Thorchain_dispatched_def Thorchain_performNextSwapAction_def returned_def returnM_def)

lemma Liquality_final_steps:
  "\<forall>s \<in> set (map fst Liquality_getStatuses).
     \<exists>a. stepOf Liquality_getStatuses s = Some a \<and> a \<le> Liquality_totalSteps - 1
        \<and> (s \<notin> set Liquality_dispatched \<longrightarrow> a = Liquality_totalSteps - 1)"
  by (simp add: Liquality_getStatuses_def stepOf_def Liquality_totalSteps_def Liquality_dispatched_def)

lemma Thorchain_final_steps:
  "\<forall>s \<in> set (map fst Thorchain_getStatuses).
     \<exists>a. stepOf Thorchain_getStatuses s = Some a \<and> a \<le> Thorchain_totalSteps - 1
        \<and> (s \<notin> set Thorchain_dispatched \<longrightarrow> a = Thorchain_totalSteps - 1)"
  by (simp add: Thorchain_getStatuses_def stepOf_def Thorchain_totalSteps_def Thorchain_dispatched_def)

section \<open>Polling handlers submit nothing\<close>

















section \<open>Polling handlers while the chain has nothing new\<close>


















section \<open>A lookup that fails\<close>

lemma lookup_fails:
  assumes "chainGetTransactionByHash w (length tr) c h = Inl e"
  shows "catchM
           (bindM (getTransactionByHash w c h) (\<lambda>tx. if hasConfirmations tx then yes tx else returnM None))
           (\<lambda>e. if name e = ''TxNotFoundError''
                 then bindM (emit (ConsoleWarn e)) (\<lambda>_. returnM None) else throwM e) tr
         = (if name e = ''TxNotFoundError''
            then (Inr None, tr @ [GetTransactionByHash c h, ConsoleWarn e])
            else (Inl e, tr @ [GetTransactionByHash c h]))"
  using assms by (simp add: getTransactionByHash_def io_defs)

lemma waitForRefundConfirmations_fails:
  assumes "chainGetTransactionByHash w (length tr)
             (getClient network walletId (fromAsset swap) (fromAccountId swap)) (refundHash swap) = Inl e"
  shows "waitForRefundConfirmations w network walletId swap tr =
           (if name e = ''TxNotFoundError''
            then (Inr None, tr @ [GetTransactionByHash (getClient network walletId (fromAsset swap) (fromAccountId swap)) (refundHash swap), ConsoleWarn e])
            else (Inl e, tr @ [GetTransactionByHash (getClient network walletId (fromAsset swap) (fromAccountId swap)) (refundHash swap)]))"
  unfolding waitForRefundConfirmations_def Let_def by (rule lookup_fails [OF assms])

lemma waitForApproveConfirmations_fails:
  assumes "chainGetTransactionByHash w (length tr)
             (getClient network walletId (fromAsset swap) (fromAccountId swap)) (approveTxHash swap) = Inl e"
  shows "waitForApproveConfirmations w network walletId swap tr =
           (if name e = ''TxNotFoundError''
            then (Inr None, tr @ [GetTransactionByHash (getClient network walletId (fromAsset swap) (fromAccountId swap)) (approveTxHash swap), ConsoleWarn e])
            else (Inl e, tr @ [GetTransactionByHash (getClient network walletId (fromAsset swap) (fromAccountId swap)) (approveTxHash swap)]))"
  unfolding waitForApproveConfirmations_def Let_def by (rule lookup_fails [OF assms])

lemma waitForSendConfirmations_fails:
  assumes "chainGetTransactionByHash w (length tr)
             (getClient network walletId (fromAsset swap) (fromAccountId swap)) (fromFundHash swap) = Inl e"
  shows "waitForSendConfirmations w network walletId swap tr =
           (if name e = ''TxNotFoundError''
            then (Inr None, tr @ [GetTransactionByHash (getClient network walletId (fromAsset swap) (fromAccountId swap)) (fromFundHash swap), ConsoleWarn e])
            else (Inl e, tr @ [GetTransactionByHash (getClient network walletId (fromAsset swap) (fromAccountId swap)) (fromFundHash swap)]))"
  unfolding waitForSendConfirmations_def Let_def by (rule lookup_fails [OF assms])

lemma confirmInitiation_fails:
  assumes "findCounterPartyInitiation w network walletId swap tr = (Inr None, tr1)"
      and "chainGetTransactionByHash w (length tr1)
             (getClient network walletId (fromAsset swap) (fromAccountId swap)) (fromFundHash swap) = Inl e"
  shows "confirmInitiation w network walletId swap tr =
           (if name e = ''TxNotFoundError''
            then (Inr None, tr1 @ [GetTransactionByHash (getClient network walletId (fromAsset swap) (fromAccountId swap)) (fromFundHash swap), ConsoleWarn e])
            else (Inl e, tr1 @ [GetTransactionByHash (getClient network walletId (fromAsset swap) (fromAccountId swap)) (fromFundHash swap)]))"
  unfolding confirmInitiation_def Let_def
  by (simp add: bindM_def [of "findCounterPartyInitiation _ _ _ _"] assms(1) lookup_fails [OF assms(2)])

lemma waitForClaimConfirmations_fails:
  assumes "chainGetTransactionByHash w (length tr)
             (getClient network walletId (toAsset swap) (toAccountId swap)) (toClaimHash swap) = Inl e"
  shows "waitForClaimConfirmations w network walletId swap tr =
           (if name e = ''TxNotFoundError''
            then handleExpirations w network walletId swap
                   (tr @ [GetTransactionByHash (getClient network walletId (toAsset swap) (toAccountId swap)) (toClaimHash swap), ConsoleWarn e])
            else (Inl e, tr @ [GetTransactionByHash (getClient network walletId (toAsset swap) (toAccountId swap)) (toClaimHash swap)]))"
  unfolding waitForClaimConfirmations_def Let_def
  by (simp add: bindM_def [of "catchM _ _"] lookup_fails [OF assms])

lemma findCounterPartyInitiation_fails:
  assumes "swapFindInitiate w (length tr)
             (getClient network walletId (toAsset swap) (toAccountId swap)) (toSwapParams swap) = Inl e"
  shows "findCounterPartyInitiation w network walletId swap tr =
           (if name e \<in> set [''BlockNotFoundError'', ''PendingTxError'', ''TxNotFoundError'']
            then handleExpirations w network walletId swap
                   (tr @ [FindInitiateSwapTransaction (getClient network walletId (toAsset swap) (toAccountId swap)) (toSwapParams swap), ConsoleWarn e])
            else (Inl e, tr @ [FindInitiateSwapTransaction (getClient network walletId (toAsset swap) (toAccountId swap)) (toSwapParams swap)]))"
  using assms by (simp add: findCounterPartyInitiation_def Let_def io_defs)

lemma waitForReceive_fails:
  assumes "firstOutHash (thornodeTx w (length tr) (fromFundHash swap)) = Some h"
      and "thornodeTx w (Suc (length tr)) h = Some receive"
      and "memo receive = Some m"
      and "memoActionOf m = ''OUT'' \<or> memoActionOf m = ''REFUND''"
      and "chainGetTransactionByHash w (Suc (Suc (length tr)))
             (if memoActionOf m = ''OUT'' then getClient network walletId (toAsset swap) (toAccountId swap)
              else getClient network walletId (fromAsset swap) (fromAccountId swap)) h = Inl e"
  shows "waitForReceive w network walletId swap tr =
           (if name e = ''TxNotFoundError''
            then (Inr None, tr @ [ThornodeGetTx (fromFundHash swap), ThornodeGetTx h,
                    GetTransactionByHash
                      (if memoActionOf m = ''OUT'' then getClient network walletId (toAsset swap) (toAccountId swap)
                       else getClient network walletId (fromAsset swap) (fromAccountId swap)) h,
                    ConsoleWarn e])
            else (Inl e, tr @ [ThornodeGetTx (fromFundHash swap), ThornodeGetTx h,
                    GetTransactionByHash
                      (if memoActionOf m = ''OUT'' then getClient network walletId (toAsset swap) (toAccountId swap)
                       else getClient network walletId (fromAsset swap) (fromAccountId swap)) h]))"
proof (cases "memoActionOf m = ''OUT''")
  case True
  with assms show ?thesis
    by (simp add: waitForReceive_def Thorchain_getTransaction_def getTransactionByHash_def Let_def io_defs)
next
  case False
  with assms have "memoActionOf m = ''REFUND''" by simp
  with False assms show ?thesis
    by (simp add: waitForReceive_def Thorchain_getTransaction_def getTransactionByHash_def Let_def io_defs)
qed

section \<open>The amounts of \<open>makeMemo\<close> and the fields of \<open>newSwap\<close>\<close>

lemma ROUND_HALF_UP_of_int [simp]: "ROUND_HALF_UP (of_int n) = n"
  by (simp add: ROUND_HALF_UP_def)

text \<open>
  \<open>ROUND_HALF_UP\<close> gives a nearest whole number, and of two nearest ones the one away
  from zero.
\<close>

lemma nearest_nonneg:
  fixes x :: rat
  assumes "0 \<le> x"
  shows "\<bar>of_int \<lfloor>x + 1 / 2\<rfloor> - x\<bar> \<le> 1 / 2"
    and "\<bar>of_int \<lfloor>x + 1 / 2\<rfloor> - x\<bar> = 1 / 2 \<Longrightarrow> \<bar>x\<bar> < \<bar>of_int \<lfloor>x + 1 / 2\<rfloor>\<bar>"
proof -
  have l: "of_int \<lfloor>x + 1 / 2\<rfloor> \<le> x + 1 / 2" and u: "x + 1 / 2 < of_int \<lfloor>x + 1 / 2\<rfloor> + 1"
    by linarith+
  from l u show "\<bar>of_int \<lfloor>x + 1 / 2\<rfloor> - x\<bar> \<le> 1 / 2" by linarith
  assume "\<bar>of_int \<lfloor>x + 1 / 2\<rfloor> - x\<bar> = 1 / 2"
  with l u assms show "\<bar>x\<bar> < \<bar>of_int \<lfloor>x + 1 / 2\<rfloor>\<bar>" by linarith
qed

lemma ROUND_HALF_UP_nearest:
  "\<bar>of_int (ROUND_HALF_UP x) - x\<bar> \<le> 1 / 2"
  "\<bar>of_int (ROUND_HALF_UP x) - x\<bar> = 1 / 2 \<Longrightarrow> \<bar>x\<bar> < \<bar>of_int (ROUND_HALF_UP x)\<bar>"
proof -
  show "\<bar>of_int (ROUND_HALF_UP x) - x\<bar> \<le> 1 / 2"
  proof (cases "0 \<le> x")
    case True
    with nearest_nonneg(1) [OF True] show ?thesis by (simp add: ROUND_HALF_UP_def)
  next
    case False
    then have n: "0 \<le> - x" by simp
    from nearest_nonneg(1) [OF n] False show ?thesis by (simp add: ROUND_HALF_UP_def abs_if split: if_splits)
  qed
  assume a: "\<bar>of_int (ROUND_HALF_UP x) - x\<bar> = 1 / 2"
  show "\<bar>x\<bar> < \<bar>of_int (ROUND_HALF_UP x)\<bar>"
  proof (cases "0 \<le> x")
    case True
    with nearest_nonneg(2) [OF True] a show ?thesis by (simp add: ROUND_HALF_UP_def)
  next
    case False
    then have n: "0 \<le> - x" by simp
    from a False have "\<bar>of_int \<lfloor>- x + 1 / 2\<rfloor> - (- x)\<bar> = 1 / 2"
      by (simp add: ROUND_HALF_UP_def abs_if split: if_splits)
    from nearest_nonneg(2) [OF n this] False show ?thesis by (simp add: ROUND_HALF_UP_def)
  qed
qed

text \<open>\<open>ROUND_DOWN\<close> of a quotient by a power of ten drops the last digits of the magnitude.\<close>

lemma ROUND_DOWN_quotient:
  "ROUND_DOWN (of_int out / 10 ^ k) = sgn out * (\<bar>out\<bar> div 10 ^ k)"
proof (cases "0 \<le> out")
  case True
  then have "(0::rat) \<le> of_int out / 10 ^ k" by simp
  moreover have "\<lfloor>(of_int out :: rat) / 10 ^ k\<rfloor> = out div 10 ^ k"
    using floor_divide_of_int_eq [of out "10 ^ k", where ?'a = rat] by simp
  ultimately show ?thesis using True by (cases "out = 0") (simp_all add: ROUND_DOWN_def)
next
  case False
  then have neg: "\<not> (0::rat) \<le> of_int out / 10 ^ k" by (simp add: divide_less_0_iff not_le)
  have "\<lfloor>(of_int (- out) :: rat) / 10 ^ k\<rfloor> = (- out) div 10 ^ k"
    using floor_divide_of_int_eq [of "- out" "10 ^ k", where ?'a = rat] by simp
  then have "\<lfloor>- ((of_int out :: rat) / 10 ^ k)\<rfloor> = (- out) div 10 ^ k" by simp
  with neg False show ?thesis by (simp add: ROUND_DOWN_def)
qed

lemma convert_up:
  assumes "d \<le> 8"
  shows "amount (convertBaseAmountDecimal (baseAmount (of_int out) d) 8) = out * 10 ^ (8 - d)"
proof -
  have "(of_int out :: rat) * 10 ^ (8 - d) = of_int (out * 10 ^ (8 - d))" by simp
  with assms show ?thesis
    by (simp add: convertBaseAmountDecimal_def baseAmount_def Let_def nat_diff_distrib' del: of_int_mult of_int_power)
qed

lemma scale_pow10:
  assumes "k \<le> N"
  shows "(of_int out :: rat) / 10 ^ k * 10 ^ N = of_int (out * 10 ^ (N - k))"
    and "of_int (out * 10 ^ (N - k)) / (10 :: rat) ^ N = of_int out / 10 ^ k"
proof -
  have "(10::rat) ^ N = 10 ^ k * 10 ^ (N - k)"
    using assms by (simp add: power_add [symmetric])
  then show "(of_int out :: rat) / 10 ^ k * 10 ^ N = of_int (out * 10 ^ (N - k))"
    and "of_int (out * 10 ^ (N - k)) / (10 :: rat) ^ N = of_int out / 10 ^ k"
    by simp_all
qed

lemma dividedBy_pow10:
  assumes "k \<le> 20"
  shows "dividedBy (of_int out) (10 ^ k) = of_int out / 10 ^ k"
  unfolding dividedBy_def scale_pow10(1) [OF assms] ROUND_HALF_UP_of_int
  by (rule scale_pow10(2) [OF assms])

lemma convert_down:
  assumes "8 < d" and "d \<le> 28"
  shows "amount (convertBaseAmountDecimal (baseAmount (of_int out) d) 8)
           = sgn out * (\<bar>out\<bar> div 10 ^ (d - 8))"
proof -
  have k: "d - 8 \<le> 20" using assms by simp
  from assms(1) show ?thesis
    by (simp add: convertBaseAmountDecimal_def baseAmount_def Let_def dividedBy_pow10 [OF k]
        dp0_ROUND_DOWN_def ROUND_DOWN_quotient nat_diff_distrib' flip: of_int_mult)
qed

lemma makeMemo_returns:
  assumes "cryptoassets w (toAsset swap) = Some info"
  shows "returns (makeMemo w network walletId swap)
     (\<lambda>mem. m_limit mem =
        amount (convertBaseAmountDecimal
          (baseAmount (of_int (dp0 (of_int (amount (baseAmount (toAmount swap - receiveFee swap) (decimals info)))
                                     * (1 - slippage swap)))) (decimals info)) 8))"
  unfolding makeMemo_def
  apply (rule returns_bindM_with [where Q = "\<lambda>i. i = info"])
   apply (simp add: returns_def liftE_def lookupAsset_def assms)
  apply (simp add: Let_def)
  apply (intro returns_intros)
  apply simp
  done

lemma approveTokens_keys:
  "returns (approveTokens w network walletId swap)
     (\<lambda>u. u ''id'' = None \<and> u ''fee'' = None \<and> u ''slippage'' = None)"
  unfolding approveTokens_def Let_def
  by (intro returns_intros) simp_all

lemma sendSwap_keys:
  "returns (sendSwap w network walletId swap)
     (\<lambda>u. u ''id'' = None \<and> u ''fee'' = None \<and> u ''slippage'' = None)"
  unfolding sendSwap_def Let_def
  by (intro returns_intros) simp_all

lemma Thorchain_newSwap_shape:
  assumes "Thorchain_newSwap w network walletId quote tr = (Inr r, tr')"
  shows "\<exists>updates tr1.
           (if isERC20 w (fromAsset quote) then approveTokens w network walletId quote
            else sendSwap w network walletId quote) tr = (Inr updates, tr1)
         \<and> tr' = tr1 @ [Uuidv4]
         \<and> r = [''id'' \<mapsto> Str (uuid w (length tr1)), ''fee'' \<mapsto> Num (fee quote), ''slippage'' \<mapsto> Num 50]
                 ++ updates"
  using assms
  by (auto simp: Thorchain_newSwap_def Let_def io_defs split: prod.splits sum.splits)

lemma Thorchain_newSwap_fields:
  assumes "Thorchain_newSwap w network walletId quote tr = (Inr r, tr')"
  shows "r ''slippage'' = Some (Num 50) \<and> r ''fee'' = Some (Num (fee quote))
       \<and> r ''id'' = Some (Str (uuid w (length tr' - 1))) \<and> last tr' = Uuidv4"
proof -
  from Thorchain_newSwap_shape [OF assms] obtain updates tr1 where
    run: "(if isERC20 w (fromAsset quote) then approveTokens w network walletId quote
            else sendSwap w network walletId quote) tr = (Inr updates, tr1)"
    and tr': "tr' = tr1 @ [Uuidv4]"
    and r: "r = [''id'' \<mapsto> Str (uuid w (length tr1)), ''fee'' \<mapsto> Num (fee quote), ''slippage'' \<mapsto> Num 50]
                 ++ updates"
    by blast
  have "updates ''id'' = None \<and> updates ''fee'' = None \<and> updates ''slippage'' = None"
  proof (cases "isERC20 w (fromAsset quote)")
    case True
    with run show ?thesis by (auto dest: returnsD [OF approveTokens_keys])
  next
    case False
    with run show ?thesis by (auto dest: returnsD [OF sendSwap_keys])
  qed
  with r tr' show ?thesis by (simp add: map_add_def)
qed

lemma makeMemo_slippage_50:
  assumes "makeMemo w network walletId swap tr = (Inr mem, tr')"
      and "cryptoassets w (toAsset swap) = Some info" and "decimals info = 8"
      and "slippage swap = 50" and "toAmount swap - receiveFee swap = of_int k"
  shows "m_limit mem = - 49 * k"
proof -
  have "(of_int k :: rat) * (1 - 50) = of_int (- 49 * k)" by simp
  then have "dp0 (of_int k * (1 - 50)) = - 49 * k"
    unfolding dp0_def by (simp only: ROUND_HALF_UP_of_int)
  with returnsD [OF makeMemo_returns [OF assms(2)] assms(1)] assms(3,4,5) show ?thesis
    by (simp add: baseAmount_def convertBaseAmountDecimal_def Let_def)
qed

lemma makeMemo_example_run:
  "makeMemo (exampleWorld (Inr None) 0) ''mainnet'' ''w1''
        (exampleThorchainSwap ''ETH'' 1000 50 (2 / 100) ''APPROVE_CONFIRMED'') [] =
   (Inr \<lparr>m_asset = \<lparr>a_chain = ''BTC'', a_symbol = ''BTC''\<rparr>, m_address = ''addr-BTC'', m_limit = 931\<rparr>,
    [GetSwapAddress ''mainnet'' ''w1'' ''BTC'' ''acc-to''])"
  by (simp add: makeMemo_def example_defs io_defs lookupAsset_def call_defs
      formatAddressOf_def baseAmount_def dp0_def ROUND_HALF_UP_def
      convertBaseAmountDecimal_def thorchainAssetOf_def toThorchainAsset_def isERC20_def)

lemma newSwap_example_run:
  "Thorchain_newSwap (exampleWorld (Inr None) 0) ''mainnet'' ''w1''
        (exampleThorchainSwap ''BTC'' 1000 50 (2 / 100) []) [] =
     (Inr ([''id'' \<mapsto> Str ''uuid-1'', ''fee'' \<mapsto> Num 2, ''slippage'' \<mapsto> Num 50] ++
           [''status'' \<mapsto> Str ''WAITING_FOR_SEND_CONFIRMATIONS'',
            ''fromFundTx'' \<mapsto> TxVal \<lparr>hash = ''sent'', confirmations = None\<rparr>,
            ''fromFundHash'' \<mapsto> Str ''sent'']),
      [GetSwapAddress ''mainnet'' ''w1'' ''BTC'' ''acc-to'',
       SendLedgerNotification ''acc-from'' ''Signing required to complete the swap.'',
       ThornodeInboundAddresses,
       SendTransaction (getClient ''mainnet'' ''w1'' ''BTC'' ''acc-from'')
         \<lparr>t_to = ''vault-btc'', t_value = 5,
          t_data = MemoHex \<lparr>m_asset = \<lparr>a_chain = ''BTC'', a_symbol = ''BTC''\<rparr>,
                            m_address = ''addr-BTC'', m_limit = 931\<rparr>,
          t_fee = 2\<rparr>,
       Uuidv4])"
  by (simp add: Thorchain_newSwap_def sendSwap_def sendBitcoinSwap_def getInboundAddress_def
      makeMemo_def example_defs io_defs lookupAsset_def call_defs
      formatAddressOf_def baseAmount_def dp0_def ROUND_HALF_UP_def
      convertBaseAmountDecimal_def thorchainAssetOf_def toThorchainAsset_def isERC20_def)

lemma makeMemo_stored_run:
  "makeMemo (exampleWorld (Inr None) 0) ''mainnet'' ''w1''
        (exampleThorchainSwap ''DAI'' 1000 50 50 ''APPROVE_CONFIRMED'') [] =
   (Inr \<lparr>m_asset = \<lparr>a_chain = ''BTC'', a_symbol = ''BTC''\<rparr>, m_address = ''addr-BTC'',
         m_limit = - 46550\<rparr>,
    [GetSwapAddress ''mainnet'' ''w1'' ''BTC'' ''acc-to''])"
  by (simp add: makeMemo_def example_defs io_defs lookupAsset_def call_defs
      formatAddressOf_def baseAmount_def dp0_def ROUND_HALF_UP_def
      convertBaseAmountDecimal_def thorchainAssetOf_def toThorchainAsset_def isERC20_def)

lemma makeMemo_tie_run:
  "makeMemo (exampleWorld (Inr None) 0) ''mainnet'' ''w1''
        (exampleThorchainSwap ''ETH'' 1 0 (3 / 2) ''APPROVE_CONFIRMED'') [] =
   (Inr \<lparr>m_asset = \<lparr>a_chain = ''BTC'', a_symbol = ''BTC''\<rparr>, m_address = ''addr-BTC'',
         m_limit = - 1\<rparr>,
    [GetSwapAddress ''mainnet'' ''w1'' ''BTC'' ''acc-to''])"
  by (simp add: makeMemo_def example_defs io_defs lookupAsset_def call_defs
      formatAddressOf_def baseAmount_def dp0_def ROUND_HALF_UP_def
      convertBaseAmountDecimal_def thorchainAssetOf_def toThorchainAsset_def isERC20_def)

lemma makeMemo_18_decimals_run:
  "makeMemo (exampleWorld (Inr None) 0) ''mainnet'' ''w1''
        ((exampleThorchainSwap ''BTC'' 30000000001 0 50 ''APPROVE_CONFIRMED'')\<lparr>toAsset := ''ETH''\<rparr>) [] =
   (Inr \<lparr>m_asset = \<lparr>a_chain = ''ETH'', a_symbol = ''ETH''\<rparr>, m_address = ''addr-ETH'',
         m_limit = - 147\<rparr>,
    [GetSwapAddress ''mainnet'' ''w1'' ''ETH'' ''acc-to''])"
  by (simp add: makeMemo_def example_defs io_defs lookupAsset_def call_defs
      formatAddressOf_def baseAmount_def dp0_def ROUND_HALF_UP_def dividedBy_def
      dp0_ROUND_DOWN_def ROUND_DOWN_def
      convertBaseAmountDecimal_def thorchainAssetOf_def toThorchainAsset_def isERC20_def)

section \<open>The claims\<close>

subsection \<open>C1: quote re-validation\<close>

text \<open>
  Claim C1. When the quote that \<open>newSwap\<close> of the HTLC provider fetches from the agent has
  a \<open>toAmount\<close> below 0.995 times the \<open>toAmount\<close> of the original quote, \<open>newSwap\<close>
  throws the slippage error; the request to the agent is the only call it has made, so
  \<open>initiateSwap\<close> is not called and no transaction is submitted.
\<close>

theorem Liquality_newSwap_slippage:
  assumes "agentOrder w (length tr) (fromAsset q) (toAsset q) (fromAmount q) = Inr order"
      and "o_toAmount order < toAmount q * (995 / 1000)"
  shows "Liquality_newSwap w network walletId q tr =
           (Inl (Error ''Error'' ''The quote slippage is too high (> 0.5%). Try again.''),
            tr @ [HttpPostOrder (fromAsset q) (toAsset q) (fromAmount q)])
       \<and> (\<forall>e \<in> set (newCalls tr (snd (Liquality_newSwap w network walletId q tr))). \<not> submits e)"
  using assms
  by (simp add: Liquality_newSwap_def Liquality_private_getQuote_def bindM_def call_def throwM_def
      newCalls_def)

text \<open>
  An instance: the original quote promises 100, the agent now offers 99, which is below
  99.5.
\<close>

theorem Liquality_newSwap_slippage_witness:
  "agentOrder (exampleWorld (Inr None) 0) 0 ''BTC'' ''ETH'' 5 =
     Inr \<lparr>o_orderId = ''order-1'', o_fromAmount = 5, o_toAmount = 99,
          o_expiresAt = 2000, o_swapExpiration = 5000, o_nodeSwapExpiration = 4000,
          o_fromCounterPartyAddress = ''agent-from'', o_toCounterPartyAddress = ''agent-to''\<rparr>
   \<and> (99 :: rat) < 100 * (995 / 1000)
   \<and> Liquality_newSwap (exampleWorld (Inr None) 0) ''mainnet'' ''w1'' (exampleLiqualitySwap 100 []) [] =
       (Inl (Error ''Error'' ''The quote slippage is too high (> 0.5%). Try again.''),
        [HttpPostOrder ''BTC'' ''ETH'' 5])"
  using Liquality_newSwap_slippage [of "exampleWorld (Inr None) 0" "[]" "exampleLiqualitySwap 100 []"
      "\<lparr>o_orderId = ''order-1'', o_fromAmount = 5, o_toAmount = 99,
        o_expiresAt = 2000, o_swapExpiration = 5000, o_nodeSwapExpiration = 4000,
        o_fromCounterPartyAddress = ''agent-from'', o_toCounterPartyAddress = ''agent-to''\<rparr>"
      "''mainnet''" "''w1''"]
  by (simp add: example_defs)

subsection \<open>C2: the minimum output of the memo\<close>

text \<open>
  Claim C2 says that the limit of the memo is \<open>(toAmount - receiveFee) * (1 - slippage)\<close>
  rounded down. The source rounds with \<open>dp(0)\<close>, which rounds to the nearest whole
  number: for \<open>toAmount = 1000\<close>, \<open>receiveFee = 49\<close>, \<open>slippage = 0.02\<close> the product is
  931.98, the specification's floor is 931 and the memo (of an asset of 8 decimals, where
  the conversion changes nothing) carries 932.
\<close>

theorem makeMemo_limit_counterexample:
  "map_sum id m_limit (fst (makeMemo (exampleWorld (Inr None) 0) ''mainnet'' ''w1''
        (exampleThorchainSwap ''ETH'' 1000 49 (2 / 100) ''APPROVE_CONFIRMED'') [])) = Inr 932
   \<and> spec_minimumOutput 1000 49 (2 / 100) = 931"
  by (simp add: makeMemo_def example_defs io_defs lookupAsset_def call_defs
      formatAddressOf_def baseAmount_def dp0_def ROUND_HALF_UP_def spec_minimumOutput_def
      convertBaseAmountDecimal_def thorchainAssetOf_def toThorchainAsset_def isERC20_def)

text \<open>
  Claim C2, amended. Whenever \<open>makeMemo\<close> returns a memo, whatever the fee and the
  slippage of the swap, its limit is computed as follows: \<open>toAmount - receiveFee\<close> is
  rounded to a nearest whole number, multiplied by \<open>1 - slippage\<close> and rounded to a
  nearest whole number again, each time the one away from zero when two are nearest (so
  not rounded down); the result is converted from the asset's decimals to 8 decimals:
  multiplied by the power of ten for an asset of at most 8 decimals, and for an asset of
  more (up to 28) decimals divided by it with the fraction dropped (towards zero).
\<close>

theorem makeMemo_limit:
  assumes "makeMemo w network walletId swap tr = (Inr mem, tr')"
      and "cryptoassets w (toAsset swap) = Some info"
      and "decimals info \<le> 28"
  shows "(let amt = toAmount swap - receiveFee swap;
              a = (if 0 \<le> amt then \<lfloor>amt + 1 / 2\<rfloor> else - \<lfloor>- amt + 1 / 2\<rfloor>);
              product = of_int a * (1 - slippage swap);
              out = (if 0 \<le> product then \<lfloor>product + 1 / 2\<rfloor> else - \<lfloor>- product + 1 / 2\<rfloor>)
          in m_limit mem = (if decimals info \<le> 8 then out * 10 ^ (8 - decimals info)
                            else sgn out * (\<bar>out\<bar> div 10 ^ (decimals info - 8)))
             \<and> \<bar>of_int a - amt\<bar> \<le> 1 / 2 \<and> (\<bar>of_int a - amt\<bar> = 1 / 2 \<longrightarrow> \<bar>amt\<bar> < \<bar>of_int a\<bar>)
             \<and> \<bar>of_int out - product\<bar> \<le> 1 / 2
             \<and> (\<bar>of_int out - product\<bar> = 1 / 2 \<longrightarrow> \<bar>product\<bar> < \<bar>of_int out\<bar>))"
proof -
  let ?amt = "toAmount swap - receiveFee swap"
  let ?a = "ROUND_HALF_UP ?amt"
  let ?product = "of_int ?a * (1 - slippage swap)"
  let ?out = "ROUND_HALF_UP ?product"
  from returnsD [OF makeMemo_returns [OF assms(2)] assms(1)]
  have "m_limit mem = amount (convertBaseAmountDecimal (baseAmount (of_int ?out) (decimals info)) 8)"
    by (simp add: baseAmount_def dp0_def)
  also have "\<dots> = (if decimals info \<le> 8 then ?out * 10 ^ (8 - decimals info)
                    else sgn ?out * (\<bar>?out\<bar> div 10 ^ (decimals info - 8)))"
    using convert_up [of "decimals info" ?out] convert_down [of "decimals info" ?out] assms(3)
    by (cases "decimals info \<le> 8") simp_all
  finally have limit: "m_limit mem = (if decimals info \<le> 8 then ?out * 10 ^ (8 - decimals info)
                    else sgn ?out * (\<bar>?out\<bar> div 10 ^ (decimals info - 8)))" .
  have "m_limit mem = (if decimals info \<le> 8 then ?out * 10 ^ (8 - decimals info)
                    else sgn ?out * (\<bar>?out\<bar> div 10 ^ (decimals info - 8)))
      \<and> \<bar>of_int ?a - ?amt\<bar> \<le> 1 / 2 \<and> (\<bar>of_int ?a - ?amt\<bar> = 1 / 2 \<longrightarrow> \<bar>?amt\<bar> < \<bar>of_int ?a\<bar>)
      \<and> \<bar>of_int ?out - ?product\<bar> \<le> 1 / 2
      \<and> (\<bar>of_int ?out - ?product\<bar> = 1 / 2 \<longrightarrow> \<bar>?product\<bar> < \<bar>of_int ?out\<bar>)"
    using limit ROUND_HALF_UP_nearest [of ?amt] ROUND_HALF_UP_nearest [of ?product] by blast
  then show ?thesis unfolding Let_def ROUND_HALF_UP_def .
qed

text \<open>
  Instances. The instance of the claim, \<open>toAmount = 1000\<close>, \<open>receiveFee = 50\<close>,
  \<open>slippage = 0.02\<close>, gives the limit 931 (the product is the whole number 931). With
  \<open>toAmount = 1\<close>, no fee and \<open>slippage = 1.5\<close> the product is \<open>-0.5\<close>, a tie, and
  the limit is \<open>-1\<close>. For an asset of 18 decimals, \<open>toAmount = 30000000001\<close>, no fee and
  \<open>slippage = 50\<close> give the product \<open>-1470000000049\<close> and the limit \<open>-147\<close>.
\<close>

theorem makeMemo_limit_witness:
  "makeMemo (exampleWorld (Inr None) 0) ''mainnet'' ''w1''
        (exampleThorchainSwap ''ETH'' 1000 50 (2 / 100) ''APPROVE_CONFIRMED'') [] =
     (Inr \<lparr>m_asset = \<lparr>a_chain = ''BTC'', a_symbol = ''BTC''\<rparr>, m_address = ''addr-BTC'', m_limit = 931\<rparr>,
      [GetSwapAddress ''mainnet'' ''w1'' ''BTC'' ''acc-to''])
   \<and> cryptoassets (exampleWorld (Inr None) 0) ''BTC''
       = Some \<lparr>chain = ''bitcoin'', decimals = 8, erc20 = False, contractAddress = None\<rparr>
   \<and> (8 :: nat) \<le> 28
   \<and> (931 :: int) = \<lfloor>of_int \<lfloor>(1000 :: rat) - 50 + 1 / 2\<rfloor> * (1 - 2 / 100) + 1 / 2 :: rat\<rfloor> * 10 ^ (8 - 8)
   \<and> makeMemo (exampleWorld (Inr None) 0) ''mainnet'' ''w1''
        (exampleThorchainSwap ''ETH'' 1 0 (3 / 2) ''APPROVE_CONFIRMED'') [] =
     (Inr \<lparr>m_asset = \<lparr>a_chain = ''BTC'', a_symbol = ''BTC''\<rparr>, m_address = ''addr-BTC'', m_limit = - 1\<rparr>,
      [GetSwapAddress ''mainnet'' ''w1'' ''BTC'' ''acc-to''])
   \<and> (- 1 :: int) = - \<lfloor>- (of_int \<lfloor>(1 :: rat) - 0 + 1 / 2\<rfloor> * (1 - 3 / 2)) + 1 / 2 :: rat\<rfloor> * 10 ^ (8 - 8)
   \<and> \<bar>of_int (- 1 :: int) - (- 1 / 2 :: rat)\<bar> = 1 / 2 \<and> \<bar>- 1 / 2 :: rat\<bar> < \<bar>of_int (- 1 :: int)\<bar>
   \<and> makeMemo (exampleWorld (Inr None) 0) ''mainnet'' ''w1''
        ((exampleThorchainSwap ''BTC'' 30000000001 0 50 ''APPROVE_CONFIRMED'')\<lparr>toAsset := ''ETH''\<rparr>) [] =
     (Inr \<lparr>m_asset = \<lparr>a_chain = ''ETH'', a_symbol = ''ETH''\<rparr>, m_address = ''addr-ETH'', m_limit = - 147\<rparr>,
      [GetSwapAddress ''mainnet'' ''w1'' ''ETH'' ''acc-to''])
   \<and> cryptoassets (exampleWorld (Inr None) 0) ''ETH''
       = Some \<lparr>chain = ''ethereum'', decimals = 18, erc20 = False, contractAddress = None\<rparr>
   \<and> (18 :: nat) \<le> 28
   \<and> (- 147 :: int) = sgn (- 1470000000049) * (\<bar>- 1470000000049\<bar> div 10 ^ (18 - 8))"
  using makeMemo_limit [OF makeMemo_example_run,
      of "\<lparr>chain = ''bitcoin'', decimals = 8, erc20 = False, contractAddress = None\<rparr>"]
    makeMemo_limit [OF makeMemo_tie_run,
      of "\<lparr>chain = ''bitcoin'', decimals = 8, erc20 = False, contractAddress = None\<rparr>"]
    makeMemo_limit [OF makeMemo_18_decimals_run,
      of "\<lparr>chain = ''ethereum'', decimals = 18, erc20 = False, contractAddress = None\<rparr>"]
    makeMemo_example_run makeMemo_tie_run makeMemo_18_decimals_run
  by (simp add: example_defs Let_def)

subsection \<open>C3: the asset lock\<close>

text \<open>
  Claim C3. For an asset of the catalogue, \<open>attemptToLockAsset\<close> returns at once (it is a
  total function of the lock table) with the key \<open>network-walletId-chain\<close>, and
  \<open>success\<close> is true exactly when that key was not locked; on success the key is locked
  afterwards, on failure the state is unchanged, and nothing is emitted either way.
  \<open>unlockAsset\<close> leaves the key unlocked and appends the event \<open>unlock:<key>\<close> whether
  or not the key was locked before; a second release changes the lock table no further
  and emits the event again.
\<close>

theorem attemptToLockAsset_unlockAsset:
  assumes "ca asset = Some info"
  shows "(\<exists>r st'. attemptToLockAsset ca network walletId asset st = (Inr r, st')
           \<and> key r = network @ ''-'' @ walletId @ ''-'' @ chain info
           \<and> (success r \<longleftrightarrow> \<not> isLocked st (key r))
           \<and> (success r \<longrightarrow> isLocked st' (key r)
                 \<and> (\<forall>k'. k' \<noteq> key r \<longrightarrow> CHAIN_LOCK st' k' = CHAIN_LOCK st k'))
           \<and> (\<not> success r \<longrightarrow> st' = st)
           \<and> emitted st' = emitted st)
       \<and> \<not> isLocked (unlockAsset k st) k
       \<and> CHAIN_LOCK (unlockAsset k st) = (CHAIN_LOCK st)(k \<mapsto> False)
       \<and> emitted (unlockAsset k st) = emitted st @ [''unlock:'' @ k]
       \<and> CHAIN_LOCK (unlockAsset k (unlockAsset k st)) = CHAIN_LOCK (unlockAsset k st)
       \<and> emitted (unlockAsset k (unlockAsset k st))
           = emitted st @ [''unlock:'' @ k, ''unlock:'' @ k]"
  using assms
  by (simp add: attemptToLockAsset_def unlockAsset_def isLocked_def lockKey_def Let_def)

text \<open>
  The theorem at a concrete catalogue: on an empty lock table the Bitcoin key of wallet
  \<open>w1\<close> is acquired, and releasing it emits \<open>unlock:mainnet-w1-bitcoin\<close>.
\<close>

theorem attemptToLockAsset_unlockAsset_witness:
  "(\<exists>r st'. attemptToLockAsset
        [''BTC'' \<mapsto> \<lparr>chain = ''bitcoin'', decimals = 8, erc20 = False, contractAddress = None\<rparr>]
        ''mainnet'' ''w1'' ''BTC'' \<lparr>CHAIN_LOCK = Map.empty, emitted = []\<rparr> = (Inr r, st')
      \<and> key r = ''mainnet-w1-bitcoin'' \<and> success r \<and> isLocked st' ''mainnet-w1-bitcoin'')
   \<and> emitted (unlockAsset ''mainnet-w1-bitcoin'' \<lparr>CHAIN_LOCK = Map.empty, emitted = []\<rparr>)
       = [''unlock:mainnet-w1-bitcoin'']"
  using attemptToLockAsset_unlockAsset
    [of "[''BTC'' \<mapsto> \<lparr>chain = ''bitcoin'', decimals = 8, erc20 = False, contractAddress = None\<rparr>]"
        "''BTC''" "\<lparr>chain = ''bitcoin'', decimals = 8, erc20 = False, contractAddress = None\<rparr>"
        "''mainnet''" "''w1''" "\<lparr>CHAIN_LOCK = Map.empty, emitted = []\<rparr>" "''mainnet-w1-bitcoin''"]
  by (auto simp: isLocked_def)

subsection \<open>C4: \<open>endTime\<close> and terminal statuses\<close>

text \<open>
  Claim C4 says that an update that sets \<open>endTime\<close> sets a terminal status. Two handlers
  of the vault-deposit provider break it: once the approval (or the deposit) has a
  confirmation, \<open>waitForApproveConfirmations\<close> (\<open>waitForSendConfirmations\<close>) returns
  \<open>endTime\<close> together with \<open>APPROVE_CONFIRMED\<close> (\<open>WAITING_FOR_RECEIVE\<close>), a status
  that the dispatch still acts on and that the status table files under \<open>PENDING\<close>.
\<close>

theorem endTime_with_pending_status:
  "fst (waitForApproveConfirmations
          (exampleWorld (Inr (Some \<lparr>hash = ''approve'', confirmations = Some 1\<rparr>)) 0)
          ''mainnet'' ''w1'' (exampleThorchainSwap ''DAI'' 1000 50 (2 / 100) ''WAITING_FOR_APPROVE_CONFIRMATIONS'') [])
     = Inr (Some [''endTime'' \<mapsto> Num 1000, ''status'' \<mapsto> Str ''APPROVE_CONFIRMED''])
   \<and> fst (waitForSendConfirmations
          (exampleWorld (Inr (Some \<lparr>hash = ''fund'', confirmations = Some 1\<rparr>)) 0)
          ''mainnet'' ''w1'' (exampleThorchainSwap ''DAI'' 1000 50 (2 / 100) ''WAITING_FOR_SEND_CONFIRMATIONS'') [])
     = Inr (Some [''endTime'' \<mapsto> Num 1000, ''status'' \<mapsto> Str ''WAITING_FOR_RECEIVE''])
   \<and> ''APPROVE_CONFIRMED'' \<in> set Thorchain_dispatched
   \<and> ''WAITING_FOR_RECEIVE'' \<in> set Thorchain_dispatched
   \<and> map_option filterStatus (map_of Thorchain_getStatuses ''APPROVE_CONFIRMED'') = Some ''PENDING''
   \<and> map_option filterStatus (map_of Thorchain_getStatuses ''WAITING_FOR_RECEIVE'') = Some ''PENDING''"
  by (simp add: waitForApproveConfirmations_def waitForSendConfirmations_def eval_defs
      Thorchain_dispatched_def Thorchain_getStatuses_def)

subsection \<open>C5: when the expiration check runs\<close>

text \<open>
  Claim C5 says that the expiration check runs only after a transaction was not found.
  The handlers run it whenever the try block did not return: the claim transaction is found
  here, without confirmations, and \<open>waitForClaimConfirmations\<close> goes on to read the
  blocks of both chains; the counterparty's transaction is found with one confirmation of
  the three that are safe, and \<open>confirmCounterPartyInitiation\<close> does the same; the
  counterparty's transaction is found and fails the verification, and
  \<open>findCounterPartyInitiation\<close> does the same.
\<close>

theorem expiration_check_after_found_transaction:
  "chainGetTransactionByHash (exampleWorld (Inr (Some \<lparr>hash = ''claim'', confirmations = Some 0\<rparr>)) 0) 0
       (getClient ''mainnet'' ''w1'' ''ETH'' ''acc-to'') ''claim''
     = Inr (Some \<lparr>hash = ''claim'', confirmations = Some 0\<rparr>)
   \<and> snd (waitForClaimConfirmations
        (exampleWorld (Inr (Some \<lparr>hash = ''claim'', confirmations = Some 0\<rparr>)) 0)
        ''mainnet'' ''w1'' (exampleLiqualitySwap 100 ''WAITING_FOR_CLAIM_CONFIRMATIONS'') [])
     = [GetTransactionByHash (getClient ''mainnet'' ''w1'' ''ETH'' ''acc-to'') ''claim'',
        GetBlockHeight (getClient ''mainnet'' ''w1'' ''BTC'' ''acc-from''),
        GetBlockByNumber (getClient ''mainnet'' ''w1'' ''BTC'' ''acc-from'') 7,
        GetBlockHeight (getClient ''mainnet'' ''w1'' ''ETH'' ''acc-to''),
        GetBlockByNumber (getClient ''mainnet'' ''w1'' ''ETH'' ''acc-to'') 7]
   \<and> snd (confirmCounterPartyInitiation
        (exampleWorld (Inr (Some \<lparr>hash = ''counter'', confirmations = Some 1\<rparr>)) 0)
        ''mainnet'' ''w1'' (exampleLiqualitySwap 100 ''CONFIRM_COUNTER_PARTY_INITIATION'') [])
     = [GetTransactionByHash (getClient ''mainnet'' ''w1'' ''ETH'' ''acc-to'') ''counter'',
        GetBlockHeight (getClient ''mainnet'' ''w1'' ''BTC'' ''acc-from''),
        GetBlockByNumber (getClient ''mainnet'' ''w1'' ''BTC'' ''acc-from'') 7,
        GetBlockHeight (getClient ''mainnet'' ''w1'' ''ETH'' ''acc-to''),
        GetBlockByNumber (getClient ''mainnet'' ''w1'' ''ETH'' ''acc-to'') 7]
   \<and> snd (findCounterPartyInitiation
        ((exampleWorld (Inr None) 0)
           \<lparr>swapFindInitiate := (\<lambda>t c p. Inr (Some \<lparr>hash = ''counter'', confirmations = Some 1\<rparr>)),
            swapVerifyInitiate := (\<lambda>t c p h. Inr False)\<rparr>)
        ''mainnet'' ''w1'' (exampleLiqualitySwap 100 ''FUNDED'') [])
     = [FindInitiateSwapTransaction (getClient ''mainnet'' ''w1'' ''ETH'' ''acc-to'')
          (toSwapParams (exampleLiqualitySwap 100 ''FUNDED'')),
        VerifyInitiateSwapTransaction (getClient ''mainnet'' ''w1'' ''ETH'' ''acc-to'')
          (toSwapParams (exampleLiqualitySwap 100 ''FUNDED'')) ''counter'',
        FindFundSwapTransaction (getClient ''mainnet'' ''w1'' ''ETH'' ''acc-to'')
          (toSwapParams (exampleLiqualitySwap 100 ''FUNDED'')) ''counter'',
        GetBlockHeight (getClient ''mainnet'' ''w1'' ''BTC'' ''acc-from''),
        GetBlockByNumber (getClient ''mainnet'' ''w1'' ''BTC'' ''acc-from'') 7,
        GetBlockHeight (getClient ''mainnet'' ''w1'' ''ETH'' ''acc-to''),
        GetBlockByNumber (getClient ''mainnet'' ''w1'' ''ETH'' ''acc-to'') 7]"
  by (simp add: waitForClaimConfirmations_def confirmCounterPartyInitiation_def safelyConfirmed_def
      safeConfirmationsOf_def findCounterPartyInitiation_def fundingConfirmed_def toSwapParams_def
      handleExpirations_def canRefund_def hasSwapExpired_def
      hasChainTimePassed_unrolled chainRead_def eval_defs)

subsection \<open>C6: step indices\<close>

text \<open>
  Claim C6 says that the step index of a terminal status equals \<open>_totalSteps()\<close>. In both
  tables the terminal statuses have step 3 and \<open>_totalSteps()\<close> is 4.
\<close>

theorem final_step_counterexample:
  "''SUCCESS'' \<notin> set Liquality_dispatched \<and> stepOf Liquality_getStatuses ''SUCCESS'' = Some 3
   \<and> Liquality_totalSteps = 4
   \<and> ''SUCCESS'' \<notin> set Thorchain_dispatched \<and> stepOf Thorchain_getStatuses ''SUCCESS'' = Some 3
   \<and> Thorchain_totalSteps = 4"
  by (simp add: Liquality_dispatched_def Thorchain_dispatched_def Liquality_steps Thorchain_steps
      Liquality_totalSteps_def Thorchain_totalSteps_def)

text \<open>
  Claim C6, amended. For each provider, whenever the dispatch returns an update that sets a
  status, the old and the new status are in the status table and the step index does not
  decrease; a status without a label in the dispatch yields no update and no call; and in
  the table every step index is at most \<open>_totalSteps() - 1\<close>, with equality for every
  status without a label in the dispatch (the terminal ones): the indices count from 0.
\<close>

theorem step_indices_monotone:
  "(Liquality_performNextSwapAction w network walletId swap tr = Some (Inr (Some u), tr')
      \<and> u ''status'' = Some (Str s')
      \<longrightarrow> (\<exists>a b. stepOf Liquality_getStatuses (status swap) = Some a
                \<and> stepOf Liquality_getStatuses s' = Some b \<and> a \<le> b))
   \<and> (Thorchain_performNextSwapAction w network walletId tswap ttr = Some (Inr (Some tu), ttr')
      \<and> tu ''status'' = Some (Str ts')
      \<longrightarrow> (\<exists>a b. stepOf Thorchain_getStatuses (status tswap) = Some a
                \<and> stepOf Thorchain_getStatuses ts' = Some b \<and> a \<le> b))
   \<and> (status swap \<notin> set Liquality_dispatched
      \<longrightarrow> Liquality_performNextSwapAction w network walletId swap tr = Some (Inr None, tr))
   \<and> (status tswap \<notin> set Thorchain_dispatched
      \<longrightarrow> Thorchain_performNextSwapAction w network walletId tswap ttr = Some (Inr None, ttr))
   \<and> (\<forall>s \<in> set (map fst Liquality_getStatuses).
        \<exists>a. stepOf Liquality_getStatuses s = Some a \<and> a \<le> Liquality_totalSteps - 1
           \<and> (s \<notin> set Liquality_dispatched \<longrightarrow> a = Liquality_totalSteps - 1))
   \<and> (\<forall>s \<in> set (map fst Thorchain_getStatuses).
        \<exists>a. stepOf Thorchain_getStatuses s = Some a \<and> a \<le> Thorchain_totalSteps - 1
           \<and> (s \<notin> set Thorchain_dispatched \<longrightarrow> a = Thorchain_totalSteps - 1))"
proof -
  have 1: "Liquality_performNextSwapAction w network walletId swap tr = Some (Inr (Some u), tr')
      \<and> u ''status'' = Some (Str s')
      \<longrightarrow> (\<exists>a b. stepOf Liquality_getStatuses (status swap) = Some a
                \<and> stepOf Liquality_getStatuses s' = Some b \<and> a \<le> b)"
    using taskReturnsD [OF Liquality_advances, of w network walletId swap tr "Some u" tr']
    by (auto simp: advances_def)
  have 2: "Thorchain_performNextSwapAction w network walletId tswap ttr = Some (Inr (Some tu), ttr')
      \<and> tu ''status'' = Some (Str ts')
      \<longrightarrow> (\<exists>a b. stepOf Thorchain_getStatuses (status tswap) = Some a
                \<and> stepOf Thorchain_getStatuses ts' = Some b \<and> a \<le> b)"
    using taskReturnsD [OF Thorchain_advances, of w network walletId tswap ttr "Some tu" ttr']
    by (auto simp: advances_def)
  from 1 2 Liquality_not_dispatched [of swap w network walletId tr]
    Thorchain_not_dispatched [of tswap w network walletId ttr]
    Liquality_final_steps Thorchain_final_steps
  show ?thesis by blast
qed

text \<open>
  Instances: an HTLC swap in \<open>INITIATION_REPORTED\<close> (step 0) whose chain time has passed
  moves to \<open>GET_REFUND\<close> (step 2); a vault-deposit swap whose approval is confirmed moves
  from step 0 to \<open>APPROVE_CONFIRMED\<close> (step 1); the terminal statuses \<open>REFUNDED\<close> and
  \<open>SUCCESS\<close> yield nothing and have step 3.
\<close>

lemma Liquality_example_transition:
  "Liquality_performNextSwapAction (exampleWorld (Inr None) 6000) ''mainnet'' ''w1''
       (exampleLiqualitySwap 100 ''INITIATION_REPORTED'') []
     = Some (Inr (Some [''status'' \<mapsto> Str ''GET_REFUND'']),
        [FindInitiateSwapTransaction (getClient ''mainnet'' ''w1'' ''ETH'' ''acc-to'')
           (toSwapParams (exampleLiqualitySwap 100 ''INITIATION_REPORTED'')),
         GetBlockHeight (getClient ''mainnet'' ''w1'' ''BTC'' ''acc-from''),
         GetBlockByNumber (getClient ''mainnet'' ''w1'' ''BTC'' ''acc-from'') 7])"
  by (simp add: Liquality_performNextSwapAction_def withInterval_unfold confirmInitiation_def
      findCounterPartyInitiation_def handleExpirations_def canRefund_def hasSwapExpired_def
      hasChainTimePassed_unrolled chainRead_def toSwapParams_def eval_defs)

lemma Thorchain_example_transition:
  "Thorchain_performNextSwapAction
       (exampleWorld (Inr (Some \<lparr>hash = ''approve'', confirmations = Some 1\<rparr>)) 6000) ''mainnet'' ''w1''
       (exampleThorchainSwap ''DAI'' 1000 50 (2 / 100) ''WAITING_FOR_APPROVE_CONFIRMATIONS'') []
     = Some (Inr (Some [''endTime'' \<mapsto> Num 1000, ''status'' \<mapsto> Str ''APPROVE_CONFIRMED'']),
        [GetTransactionByHash (getClient ''mainnet'' ''w1'' ''DAI'' ''acc-from'') ''approve'', DateNow])"
  by (simp add: Thorchain_performNextSwapAction_def withInterval_unfold waitForApproveConfirmations_def
      eval_defs)

theorem step_indices_monotone_witness:
  "Liquality_performNextSwapAction (exampleWorld (Inr None) 6000) ''mainnet'' ''w1''
       (exampleLiqualitySwap 100 ''INITIATION_REPORTED'') []
     = Some (Inr (Some [''status'' \<mapsto> Str ''GET_REFUND'']),
        [FindInitiateSwapTransaction (getClient ''mainnet'' ''w1'' ''ETH'' ''acc-to'')
           (toSwapParams (exampleLiqualitySwap 100 ''INITIATION_REPORTED'')),
         GetBlockHeight (getClient ''mainnet'' ''w1'' ''BTC'' ''acc-from''),
         GetBlockByNumber (getClient ''mainnet'' ''w1'' ''BTC'' ''acc-from'') 7])
   \<and> (\<exists>a b. stepOf Liquality_getStatuses ''INITIATION_REPORTED'' = Some a
          \<and> stepOf Liquality_getStatuses ''GET_REFUND'' = Some b \<and> a \<le> b)
   \<and> (\<exists>a b. stepOf Thorchain_getStatuses ''WAITING_FOR_APPROVE_CONFIRMATIONS'' = Some a
          \<and> stepOf Thorchain_getStatuses ''APPROVE_CONFIRMED'' = Some b \<and> a \<le> b)
   \<and> Thorchain_performNextSwapAction (exampleWorld (Inr None) 0) ''mainnet'' ''w1''
       (exampleThorchainSwap ''ETH'' 1000 50 (2 / 100) ''SUCCESS'') [] = Some (Inr None, [])
   \<and> Liquality_performNextSwapAction (exampleWorld (Inr None) 0) ''mainnet'' ''w1''
       (exampleLiqualitySwap 100 ''REFUNDED'') [] = Some (Inr None, [])
   \<and> (\<exists>a. stepOf Liquality_getStatuses ''REFUNDED'' = Some a \<and> a = Liquality_totalSteps - 1)
   \<and> (\<exists>a. stepOf Thorchain_getStatuses ''SUCCESS'' = Some a \<and> a = Thorchain_totalSteps - 1)"
proof -
  have st: "status (exampleLiqualitySwap 100 ''INITIATION_REPORTED'') = ''INITIATION_REPORTED''"
    "status (exampleLiqualitySwap 100 ''REFUNDED'') = ''REFUNDED''"
    "status (exampleThorchainSwap ''ETH'' 1000 50 (2 / 100) ''SUCCESS'') = ''SUCCESS''"
    "status (exampleThorchainSwap ''DAI'' 1000 50 (2 / 100) ''WAITING_FOR_APPROVE_CONFIRMATIONS'')
       = ''WAITING_FOR_APPROVE_CONFIRMATIONS''"
    by (simp_all add: example_defs)
  have nd: "''REFUNDED'' \<notin> set Liquality_dispatched" "''SUCCESS'' \<notin> set Thorchain_dispatched"
    "''REFUNDED'' \<in> set (map fst Liquality_getStatuses)" "''SUCCESS'' \<in> set (map fst Thorchain_getStatuses)"
    by (simp_all add: Liquality_dispatched_def Thorchain_dispatched_def Liquality_getStatuses_def
        Thorchain_getStatuses_def)
  from step_indices_monotone [where w = "exampleWorld (Inr None) 6000" and network = "''mainnet''"
      and walletId = "''w1''" and swap = "exampleLiqualitySwap 100 ''INITIATION_REPORTED''"
      and tr = "[]" and u = "[''status'' \<mapsto> Str ''GET_REFUND'']" and s' = "''GET_REFUND''"]
    Liquality_example_transition st
  have a: "\<exists>a b. stepOf Liquality_getStatuses ''INITIATION_REPORTED'' = Some a
          \<and> stepOf Liquality_getStatuses ''GET_REFUND'' = Some b \<and> a \<le> b"
    by simp
  from step_indices_monotone
      [where w = "exampleWorld (Inr (Some \<lparr>hash = ''approve'', confirmations = Some 1\<rparr>)) 6000"
      and network = "''mainnet''" and walletId = "''w1''"
      and tswap = "exampleThorchainSwap ''DAI'' 1000 50 (2 / 100) ''WAITING_FOR_APPROVE_CONFIRMATIONS''"
      and ttr = "[]" and tu = "[''endTime'' \<mapsto> Num 1000, ''status'' \<mapsto> Str ''APPROVE_CONFIRMED'']"
      and ts' = "''APPROVE_CONFIRMED''"]
    Thorchain_example_transition st
  have b: "\<exists>a b. stepOf Thorchain_getStatuses ''WAITING_FOR_APPROVE_CONFIRMATIONS'' = Some a
          \<and> stepOf Thorchain_getStatuses ''APPROVE_CONFIRMED'' = Some b \<and> a \<le> b"
    by simp
  note terminal = step_indices_monotone [where w = "exampleWorld (Inr None) 0" and network = "''mainnet''"
      and walletId = "''w1''" and swap = "exampleLiqualitySwap 100 ''REFUNDED''" and tr = "[]"
      and tswap = "exampleThorchainSwap ''ETH'' 1000 50 (2 / 100) ''SUCCESS''" and ttr = "[]"]
  from terminal st nd
  have c: "Thorchain_performNextSwapAction (exampleWorld (Inr None) 0) ''mainnet'' ''w1''
       (exampleThorchainSwap ''ETH'' 1000 50 (2 / 100) ''SUCCESS'') [] = Some (Inr None, [])"
    and d: "Liquality_performNextSwapAction (exampleWorld (Inr None) 0) ''mainnet'' ''w1''
       (exampleLiqualitySwap 100 ''REFUNDED'') [] = Some (Inr None, [])"
    by simp_all
  from terminal nd
  have e: "\<exists>a. stepOf Liquality_getStatuses ''REFUNDED'' = Some a \<and> a = Liquality_totalSteps - 1"
    and f: "\<exists>a. stepOf Thorchain_getStatuses ''SUCCESS'' = Some a \<and> a = Thorchain_totalSteps - 1"
    by blast+
  from Liquality_example_transition a b c d e f show ?thesis by simp
qed

subsection \<open>C7: a lookup that finds nothing\<close>

text \<open>
  Claim C7 says that every polling handler returns no result when the lookup of the
  transaction fails with \<open>TxNotFoundError\<close>. \<open>waitForClaimConfirmations\<close> is a polling
  handler that logs the error and goes on to the expiration check: with the chain time
  past the swap's expiration it returns the update \<open>GET_REFUND\<close>.
\<close>

theorem not_found_counterexample:
  "chainGetTransactionByHash (exampleWorld (Inl (Error ''TxNotFoundError'' ''not found'')) 6000) 0
       (getClient ''mainnet'' ''w1'' ''ETH'' ''acc-to'') ''claim''
     = Inl (Error ''TxNotFoundError'' ''not found'')
   \<and> fst (waitForClaimConfirmations
        (exampleWorld (Inl (Error ''TxNotFoundError'' ''not found'')) 6000)
        ''mainnet'' ''w1'' (exampleLiqualitySwap 100 ''WAITING_FOR_CLAIM_CONFIRMATIONS'') [])
     = Inr (Some [''status'' \<mapsto> Str ''GET_REFUND''])"
  by (simp add: waitForClaimConfirmations_def handleExpirations_def canRefund_def hasSwapExpired_def
      hasChainTimePassed_unrolled chainRead_def eval_defs)

text \<open>
  Claim C7, amended. When \<open>getTransactionByHash\<close> throws in
  \<open>waitForRefundConfirmations\<close>, in \<open>confirmInitiation\<close> (after its search for the
  counterparty's transaction returned nothing), in \<open>waitForApproveConfirmations\<close>, in
  \<open>waitForSendConfirmations\<close> or in \<open>waitForReceive\<close> (for the outbound transaction
  that the THORNode names), an error named \<open>TxNotFoundError\<close> is logged and the handler
  returns no result for this tick, and any other error is thrown to the caller with
  nothing else done. \<open>waitForClaimConfirmations\<close> throws any other error likewise; on
  \<open>TxNotFoundError\<close> it logs the error and returns what the expiration check returns.
  So does \<open>findCounterPartyInitiation\<close> when its search throws, where
  \<open>BlockNotFoundError\<close> and \<open>PendingTxError\<close> count as not found too.
\<close>

theorem not_found_returns_none:
  "(chainGetTransactionByHash w (length tr)
       (getClient network walletId (fromAsset swap) (fromAccountId swap)) (refundHash swap) = Inl e
     \<longrightarrow> waitForRefundConfirmations w network walletId swap tr =
           (if name e = ''TxNotFoundError''
            then (Inr None, tr @ [GetTransactionByHash (getClient network walletId (fromAsset swap) (fromAccountId swap)) (refundHash swap), ConsoleWarn e])
            else (Inl e, tr @ [GetTransactionByHash (getClient network walletId (fromAsset swap) (fromAccountId swap)) (refundHash swap)])))
   \<and> (findCounterPartyInitiation w network walletId swap tr = (Inr None, tr1)
       \<and> chainGetTransactionByHash w (length tr1)
            (getClient network walletId (fromAsset swap) (fromAccountId swap)) (fromFundHash swap) = Inl e
     \<longrightarrow> confirmInitiation w network walletId swap tr =
           (if name e = ''TxNotFoundError''
            then (Inr None, tr1 @ [GetTransactionByHash (getClient network walletId (fromAsset swap) (fromAccountId swap)) (fromFundHash swap), ConsoleWarn e])
            else (Inl e, tr1 @ [GetTransactionByHash (getClient network walletId (fromAsset swap) (fromAccountId swap)) (fromFundHash swap)])))
   \<and> (chainGetTransactionByHash w (length tr)
       (getClient network walletId (toAsset swap) (toAccountId swap)) (toClaimHash swap) = Inl e
     \<longrightarrow> waitForClaimConfirmations w network walletId swap tr =
           (if name e = ''TxNotFoundError''
            then handleExpirations w network walletId swap
                   (tr @ [GetTransactionByHash (getClient network walletId (toAsset swap) (toAccountId swap)) (toClaimHash swap), ConsoleWarn e])
            else (Inl e, tr @ [GetTransactionByHash (getClient network walletId (toAsset swap) (toAccountId swap)) (toClaimHash swap)])))
   \<and> (chainGetTransactionByHash w (length tr)
       (getClient network walletId (fromAsset tswap) (fromAccountId tswap)) (approveTxHash tswap) = Inl e
     \<longrightarrow> waitForApproveConfirmations w network walletId tswap tr =
           (if name e = ''TxNotFoundError''
            then (Inr None, tr @ [GetTransactionByHash (getClient network walletId (fromAsset tswap) (fromAccountId tswap)) (approveTxHash tswap), ConsoleWarn e])
            else (Inl e, tr @ [GetTransactionByHash (getClient network walletId (fromAsset tswap) (fromAccountId tswap)) (approveTxHash tswap)])))
   \<and> (chainGetTransactionByHash w (length tr)
       (getClient network walletId (fromAsset tswap) (fromAccountId tswap)) (fromFundHash tswap) = Inl e
     \<longrightarrow> waitForSendConfirmations w network walletId tswap tr =
           (if name e = ''TxNotFoundError''
            then (Inr None, tr @ [GetTransactionByHash (getClient network walletId (fromAsset tswap) (fromAccountId tswap)) (fromFundHash tswap), ConsoleWarn e])
            else (Inl e, tr @ [GetTransactionByHash (getClient network walletId (fromAsset tswap) (fromAccountId tswap)) (fromFundHash tswap)])))
   \<and> (firstOutHash (thornodeTx w (length tr) (fromFundHash tswap)) = Some h
       \<and> thornodeTx w (Suc (length tr)) h = Some receive \<and> memo receive = Some m
       \<and> (memoActionOf m = ''OUT'' \<or> memoActionOf m = ''REFUND'')
       \<and> chainGetTransactionByHash w (Suc (Suc (length tr)))
             (if memoActionOf m = ''OUT'' then getClient network walletId (toAsset tswap) (toAccountId tswap)
              else getClient network walletId (fromAsset tswap) (fromAccountId tswap)) h = Inl e
     \<longrightarrow> waitForReceive w network walletId tswap tr =
           (if name e = ''TxNotFoundError''
            then (Inr None, tr @ [ThornodeGetTx (fromFundHash tswap), ThornodeGetTx h,
                    GetTransactionByHash
                      (if memoActionOf m = ''OUT'' then getClient network walletId (toAsset tswap) (toAccountId tswap)
                       else getClient network walletId (fromAsset tswap) (fromAccountId tswap)) h,
                    ConsoleWarn e])
            else (Inl e, tr @ [ThornodeGetTx (fromFundHash tswap), ThornodeGetTx h,
                    GetTransactionByHash
                      (if memoActionOf m = ''OUT'' then getClient network walletId (toAsset tswap) (toAccountId tswap)
                       else getClient network walletId (fromAsset tswap) (fromAccountId tswap)) h])))
   \<and> (swapFindInitiate w (length tr)
         (getClient network walletId (toAsset swap) (toAccountId swap)) (toSwapParams swap) = Inl e
     \<longrightarrow> findCounterPartyInitiation w network walletId swap tr =
           (if name e \<in> set [''BlockNotFoundError'', ''PendingTxError'', ''TxNotFoundError'']
            then handleExpirations w network walletId swap
                   (tr @ [FindInitiateSwapTransaction (getClient network walletId (toAsset swap) (toAccountId swap)) (toSwapParams swap), ConsoleWarn e])
            else (Inl e, tr @ [FindInitiateSwapTransaction (getClient network walletId (toAsset swap) (toAccountId swap)) (toSwapParams swap)])))"
  using waitForRefundConfirmations_fails [of w tr network walletId swap e]
    confirmInitiation_fails [of w network walletId swap tr tr1 e]
    waitForClaimConfirmations_fails [of w tr network walletId swap e]
    waitForApproveConfirmations_fails [of w tr network walletId tswap e]
    waitForSendConfirmations_fails [of w tr network walletId tswap e]
    waitForReceive_fails [of w tr tswap h receive m network walletId e]
    findCounterPartyInitiation_fails [of w tr network walletId swap e]
  by blast

text \<open>
  Instances, in a world whose lookups all fail with \<open>TxNotFoundError\<close> and whose chain
  time has not passed: the five handlers and \<open>waitForClaimConfirmations\<close> return no
  result, and so does \<open>findCounterPartyInitiation\<close> when its search fails with
  \<open>PendingTxError\<close>; in a world whose lookups time out, \<open>waitForSendConfirmations\<close>
  throws the timeout.
\<close>

lemma findCounterPartyInitiation_example_run:
  "findCounterPartyInitiation (exampleWorld (Inl (Error ''TxNotFoundError'' ''not found'')) 0)
       ''mainnet'' ''w1'' (exampleLiqualitySwap 100 ''INITIATION_REPORTED'') []
     = (Inr None,
        [FindInitiateSwapTransaction (getClient ''mainnet'' ''w1'' ''ETH'' ''acc-to'')
           (toSwapParams (exampleLiqualitySwap 100 ''INITIATION_REPORTED'')),
         GetBlockHeight (getClient ''mainnet'' ''w1'' ''BTC'' ''acc-from''),
         GetBlockByNumber (getClient ''mainnet'' ''w1'' ''BTC'' ''acc-from'') 7,
         GetBlockHeight (getClient ''mainnet'' ''w1'' ''ETH'' ''acc-to''),
         GetBlockByNumber (getClient ''mainnet'' ''w1'' ''ETH'' ''acc-to'') 7])"
  by (simp add: findCounterPartyInitiation_def handleExpirations_def canRefund_def hasSwapExpired_def
      hasChainTimePassed_unrolled chainRead_def toSwapParams_def eval_defs)

lemma handleExpirations_example_run:
  "fst (handleExpirations (exampleWorld (Inl (Error ''TxNotFoundError'' ''not found'')) 0)
       ''mainnet'' ''w1'' (exampleLiqualitySwap 100 ''WAITING_FOR_CLAIM_CONFIRMATIONS'') tr) = Inr None"
  by (simp add: handleExpirations_def canRefund_def hasSwapExpired_def
      hasChainTimePassed_unrolled chainRead_def eval_defs)

lemma handleExpirations_example_run_pending:
  "fst (handleExpirations
       ((exampleWorld (Inl (Error ''TxNotFoundError'' ''not found'')) 0)
          \<lparr>swapFindInitiate := (\<lambda>t c p. Inl (Error ''PendingTxError'' ''pending''))\<rparr>)
       ''mainnet'' ''w1'' (exampleLiqualitySwap 100 ''WAITING_FOR_CLAIM_CONFIRMATIONS'') tr) = Inr None"
  by (simp add: handleExpirations_def canRefund_def hasSwapExpired_def
      hasChainTimePassed_unrolled chainRead_def eval_defs)

theorem not_found_returns_none_witness:
  "fst (waitForRefundConfirmations (exampleWorld (Inl (Error ''TxNotFoundError'' ''not found'')) 0)
       ''mainnet'' ''w1'' (exampleLiqualitySwap 100 ''WAITING_FOR_REFUND_CONFIRMATIONS'') []) = Inr None
   \<and> fst (confirmInitiation (exampleWorld (Inl (Error ''TxNotFoundError'' ''not found'')) 0)
       ''mainnet'' ''w1'' (exampleLiqualitySwap 100 ''INITIATION_REPORTED'') []) = Inr None
   \<and> fst (waitForClaimConfirmations (exampleWorld (Inl (Error ''TxNotFoundError'' ''not found'')) 0)
       ''mainnet'' ''w1'' (exampleLiqualitySwap 100 ''WAITING_FOR_CLAIM_CONFIRMATIONS'') []) = Inr None
   \<and> fst (waitForApproveConfirmations (exampleWorld (Inl (Error ''TxNotFoundError'' ''not found'')) 0)
       ''mainnet'' ''w1'' (exampleThorchainSwap ''DAI'' 1000 50 (2 / 100) ''WAITING_FOR_APPROVE_CONFIRMATIONS'') [])
       = Inr None
   \<and> waitForSendConfirmations (exampleWorld (Inl (Error ''TimeoutError'' ''timeout'')) 0)
       ''mainnet'' ''w1'' (exampleThorchainSwap ''ETH'' 1000 50 (2 / 100) ''WAITING_FOR_SEND_CONFIRMATIONS'') []
     = (Inl (Error ''TimeoutError'' ''timeout''),
        [GetTransactionByHash (getClient ''mainnet'' ''w1'' ''ETH'' ''acc-from'') ''fund''])
   \<and> fst (waitForReceive (exampleWorld (Inl (Error ''TxNotFoundError'' ''not found'')) 0)
       ''mainnet'' ''w1'' (exampleThorchainSwap ''ETH'' 1000 50 (2 / 100) ''WAITING_FOR_RECEIVE'') []) = Inr None
   \<and> fst (findCounterPartyInitiation
       ((exampleWorld (Inl (Error ''TxNotFoundError'' ''not found'')) 0)
          \<lparr>swapFindInitiate := (\<lambda>t c p. Inl (Error ''PendingTxError'' ''pending''))\<rparr>)
       ''mainnet'' ''w1'' (exampleLiqualitySwap 100 ''WAITING_FOR_CLAIM_CONFIRMATIONS'') []) = Inr None"
  using not_found_returns_none
      [where w = "exampleWorld (Inl (Error ''TxNotFoundError'' ''not found'')) 0"
        and tr = "[]" and network = "''mainnet''" and walletId = "''w1''"
        and e = "Error ''TxNotFoundError'' ''not found''"
        and tswap = "exampleThorchainSwap ''ETH'' 1000 50 (2 / 100) ''WAITING_FOR_RECEIVE''"
        and h = "''out''" and receive = "\<lparr>out_hashes = [], memo = Some ''OUT:FUND''\<rparr>"
        and m = "''OUT:FUND''"]
    not_found_returns_none
      [where w = "(exampleWorld (Inl (Error ''TxNotFoundError'' ''not found'')) 0)
          \<lparr>swapFindInitiate := (\<lambda>t c p. Inl (Error ''PendingTxError'' ''pending''))\<rparr>"
        and tr = "[]" and network = "''mainnet''" and walletId = "''w1''"
        and e = "Error ''PendingTxError'' ''pending''"
        and swap = "exampleLiqualitySwap 100 ''WAITING_FOR_CLAIM_CONFIRMATIONS''"]
    handleExpirations_example_run_pending
    not_found_returns_none
      [where w = "exampleWorld (Inl (Error ''TxNotFoundError'' ''not found'')) 0"
        and tr = "[]" and network = "''mainnet''" and walletId = "''w1''"
        and swap = "exampleLiqualitySwap 100 ''WAITING_FOR_REFUND_CONFIRMATIONS''"
        and e = "Error ''TxNotFoundError'' ''not found''"
        and tswap = "exampleThorchainSwap ''DAI'' 1000 50 (2 / 100) ''WAITING_FOR_APPROVE_CONFIRMATIONS''"]
    not_found_returns_none
      [where w = "exampleWorld (Inl (Error ''TxNotFoundError'' ''not found'')) 0"
        and tr = "[]" and network = "''mainnet''" and walletId = "''w1''"
        and swap = "exampleLiqualitySwap 100 ''INITIATION_REPORTED''"
        and e = "Error ''TxNotFoundError'' ''not found''"
        and ?tr1.0 = "[FindInitiateSwapTransaction (getClient ''mainnet'' ''w1'' ''ETH'' ''acc-to'')
           (toSwapParams (exampleLiqualitySwap 100 ''INITIATION_REPORTED'')),
         GetBlockHeight (getClient ''mainnet'' ''w1'' ''BTC'' ''acc-from''),
         GetBlockByNumber (getClient ''mainnet'' ''w1'' ''BTC'' ''acc-from'') 7,
         GetBlockHeight (getClient ''mainnet'' ''w1'' ''ETH'' ''acc-to''),
         GetBlockByNumber (getClient ''mainnet'' ''w1'' ''ETH'' ''acc-to'') 7]"]
    not_found_returns_none
      [where w = "exampleWorld (Inl (Error ''TxNotFoundError'' ''not found'')) 0"
        and tr = "[]" and network = "''mainnet''" and walletId = "''w1''"
        and swap = "exampleLiqualitySwap 100 ''WAITING_FOR_CLAIM_CONFIRMATIONS''"
        and e = "Error ''TxNotFoundError'' ''not found''"]
    not_found_returns_none
      [where w = "exampleWorld (Inl (Error ''TimeoutError'' ''timeout'')) 0"
        and tr = "[]" and network = "''mainnet''" and walletId = "''w1''"
        and e = "Error ''TimeoutError'' ''timeout''"
        and tswap = "exampleThorchainSwap ''ETH'' 1000 50 (2 / 100) ''WAITING_FOR_SEND_CONFIRMATIONS''"]
    findCounterPartyInitiation_example_run handleExpirations_example_run
  by (simp add: example_defs getClient_def firstOutHash_def memoActionOf_def)

subsection \<open>C8: the retry of \<open>hasChainTimePassed\<close>\<close>


subsection \<open>C9: two transitions without new data\<close>



text \<open>
  Instances. An HTLC swap in \<open>INITIATION_REPORTED\<close> whose chain time has passed: the call
  returns \<open>GET_REFUND\<close> after three calls, none of which submits. The same swap while
  every lookup fails with \<open>TxNotFoundError\<close> and no block is past the expirations:
  \<open>confirmInitiation\<close> returns no result twice and the call does not return. A
  vault-deposit swap in \<open>WAITING_FOR_APPROVE_CONFIRMATIONS\<close> whose approval is found
  without confirmations: \<open>waitForApproveConfirmations\<close> returns no result twice and the
  call does not return. A vault-deposit swap in \<open>WAITING_FOR_RECEIVE\<close> whose outbound
  transaction is found without confirmations: the handler and the call return the update,
  after three lookups that do not submit.
\<close>

lemma waitForReceive_example_unconfirmed:
  "waitForReceive (exampleWorld (Inr (Some \<lparr>hash = ''out'', confirmations = Some 0\<rparr>)) 0)
        ''mainnet'' ''w1'' (exampleThorchainSwap ''ETH'' 1000 50 (2 / 100) ''WAITING_FOR_RECEIVE'') []
     = (Inr (Some [''receiveTxHash'' \<mapsto> Str ''out'',
                   ''receiveTx'' \<mapsto> TxVal \<lparr>hash = ''out'', confirmations = Some 0\<rparr>]),
        [ThornodeGetTx ''fund'', ThornodeGetTx ''out'',
         GetTransactionByHash (getClient ''mainnet'' ''w1'' ''BTC'' ''acc-to'') ''out''])"
  by (simp add: waitForReceive_def Thorchain_getTransaction_def firstOutHash_def memoActionOf_def
      eval_defs)


subsection \<open>C10: the slippage field of a new vault-deposit swap\<close>

text \<open>
  Claim C10. Whenever \<open>newSwap\<close> of the vault-deposit provider returns, the returned
  object has \<open>slippage\<close> 50, the \<open>fee\<close> of the quote and as \<open>id\<close> the value of the
  call of \<open>uuidv4\<close> that ends the run, whatever slippage the quote carried; and
  \<open>makeMemo\<close> computes its limit from the \<open>slippage\<close> field of the swap it is given: for
  a swap whose \<open>slippage\<close> is 50 (an asset of 8 decimals, \<open>toAmount - receiveFee\<close> the
  whole number \<open>k\<close>) the limit is \<open>- 49 * k\<close>.
\<close>

theorem Thorchain_newSwap_slippage_50:
  "(Thorchain_newSwap w network walletId quote tr = (Inr r, tr')
      \<longrightarrow> r ''slippage'' = Some (Num 50) \<and> r ''fee'' = Some (Num (fee quote))
          \<and> r ''id'' = Some (Str (uuid w (length tr' - 1))) \<and> last tr' = Uuidv4)
   \<and> (makeMemo w network walletId swap tr0 = (Inr mem, tr0')
       \<and> cryptoassets w (toAsset swap) = Some info \<and> decimals info = 8
       \<and> slippage swap = 50 \<and> toAmount swap - receiveFee swap = of_int k
      \<longrightarrow> m_limit mem = - 49 * k)"
  using Thorchain_newSwap_fields [of w network walletId quote tr r tr']
    makeMemo_slippage_50 [of w network walletId swap tr0 mem tr0' info k]
  by blast

text \<open>
  Instances: a new swap from \<open>BTC\<close> whose quote has slippage 0.02 is returned with
  slippage 50 (its memo, made from the quote, has the limit 931); the memo of a stored swap
  with slippage 50, \<open>toAmount = 1000\<close> and \<open>receiveFee = 50\<close> has the limit -46550.
\<close>

theorem Thorchain_newSwap_slippage_50_witness:
  "Thorchain_newSwap (exampleWorld (Inr None) 0) ''mainnet'' ''w1''
        (exampleThorchainSwap ''BTC'' 1000 50 (2 / 100) []) [] =
     (Inr ([''id'' \<mapsto> Str ''uuid-1'', ''fee'' \<mapsto> Num 2, ''slippage'' \<mapsto> Num 50] ++
           [''status'' \<mapsto> Str ''WAITING_FOR_SEND_CONFIRMATIONS'',
            ''fromFundTx'' \<mapsto> TxVal \<lparr>hash = ''sent'', confirmations = None\<rparr>,
            ''fromFundHash'' \<mapsto> Str ''sent'']),
      [GetSwapAddress ''mainnet'' ''w1'' ''BTC'' ''acc-to'',
       SendLedgerNotification ''acc-from'' ''Signing required to complete the swap.'',
       ThornodeInboundAddresses,
       SendTransaction (getClient ''mainnet'' ''w1'' ''BTC'' ''acc-from'')
         \<lparr>t_to = ''vault-btc'', t_value = 5,
          t_data = MemoHex \<lparr>m_asset = \<lparr>a_chain = ''BTC'', a_symbol = ''BTC''\<rparr>,
                            m_address = ''addr-BTC'', m_limit = 931\<rparr>,
          t_fee = 2\<rparr>,
       Uuidv4])
   \<and> ([''id'' \<mapsto> Str ''uuid-1'', ''fee'' \<mapsto> Num 2, ''slippage'' \<mapsto> Num 50] ++
           [''status'' \<mapsto> Str ''WAITING_FOR_SEND_CONFIRMATIONS'',
            ''fromFundTx'' \<mapsto> TxVal \<lparr>hash = ''sent'', confirmations = None\<rparr>,
            ''fromFundHash'' \<mapsto> Str ''sent'']) ''slippage'' = Some (Num 50)
   \<and> makeMemo (exampleWorld (Inr None) 0) ''mainnet'' ''w1''
        (exampleThorchainSwap ''DAI'' 1000 50 50 ''APPROVE_CONFIRMED'') [] =
      (Inr \<lparr>m_asset = \<lparr>a_chain = ''BTC'', a_symbol = ''BTC''\<rparr>, m_address = ''addr-BTC'',
            m_limit = - 46550\<rparr>,
       [GetSwapAddress ''mainnet'' ''w1'' ''BTC'' ''acc-to''])
   \<and> (- 46550 :: int) = - 49 * 950"
  using Thorchain_newSwap_slippage_50 [where w = "exampleWorld (Inr None) 0" and network = "''mainnet''"
      and walletId = "''w1''" and quote = "exampleThorchainSwap ''BTC'' 1000 50 (2 / 100) []"
      and tr = "[]" and swap = "exampleThorchainSwap ''DAI'' 1000 50 50 ''APPROVE_CONFIRMED''"
      and ?tr0.0 = "[]"
      and info = "\<lparr>chain = ''bitcoin'', decimals = 8, erc20 = False, contractAddress = None\<rparr>"
      and k = 950]
    newSwap_example_run makeMemo_stored_run
  by (simp add: example_defs)

end
